theory Spec2Isabelle
  imports Complex_Main
begin

section \<open>JavaScript numbers\<close>

text \<open>
  The server is TypeScript; every quantity it computes with is a JavaScript \<open>number\<close>.
  The model keeps the four kinds of value a \<open>number\<close> can be: a finite value, the two
  infinities and NaN. A finite value is modelled by the real it denotes, and negative zero
  is identified with zero. The arithmetic operations defined here are exact on finite
  values; the behaviour on the non-finite values (division by zero, the logarithm outside
  its domain, NaN propagating through arithmetic, comparisons and
  \<open>Math.min\<close>/\<open>Math.max\<close>) follows ECMAScript. The rounding of a result to a double is the
  separate function \<open>fl\<close> below. The pricing functions are modelled with the exact
  operations (the last place of a quote and overflow to an infinity are not modelled
  there); the trade verification and the confirmation handlers, whose branches and stored
  values depend on the rounded results, round after every operation.
\<close>

datatype number = Fin real | PosInf | NegInf | NaN

fun js_neg :: "number \<Rightarrow> number" where
  "js_neg (Fin a) = Fin (- a)"
| "js_neg PosInf = NegInf"
| "js_neg NegInf = PosInf"
| "js_neg NaN = NaN"

fun js_add :: "number \<Rightarrow> number \<Rightarrow> number" where
  "js_add (Fin a) (Fin b) = Fin (a + b)"
| "js_add NaN y = NaN"
| "js_add x NaN = NaN"
| "js_add PosInf NegInf = NaN"
| "js_add NegInf PosInf = NaN"
| "js_add PosInf y = PosInf"
| "js_add x PosInf = PosInf"
| "js_add NegInf y = NegInf"
| "js_add x NegInf = NegInf"

fun js_mul :: "number \<Rightarrow> number \<Rightarrow> number" where
  "js_mul (Fin a) (Fin b) = Fin (a * b)"
| "js_mul NaN y = NaN"
| "js_mul x NaN = NaN"
| "js_mul PosInf (Fin b) = (if b = 0 then NaN else if 0 < b then PosInf else NegInf)"
| "js_mul NegInf (Fin b) = (if b = 0 then NaN else if 0 < b then NegInf else PosInf)"
| "js_mul (Fin a) PosInf = (if a = 0 then NaN else if 0 < a then PosInf else NegInf)"
| "js_mul (Fin a) NegInf = (if a = 0 then NaN else if 0 < a then NegInf else PosInf)"
| "js_mul PosInf PosInf = PosInf"
| "js_mul PosInf NegInf = NegInf"
| "js_mul NegInf PosInf = NegInf"
| "js_mul NegInf NegInf = PosInf"

fun js_div :: "number \<Rightarrow> number \<Rightarrow> number" where
  "js_div (Fin a) (Fin b) =
     (if b \<noteq> 0 then Fin (a / b)
      else if a = 0 then NaN else if 0 < a then PosInf else NegInf)"
| "js_div NaN y = NaN"
| "js_div x NaN = NaN"
| "js_div (Fin a) PosInf = Fin 0"
| "js_div (Fin a) NegInf = Fin 0"
| "js_div PosInf (Fin b) = (if 0 \<le> b then PosInf else NegInf)"
| "js_div NegInf (Fin b) = (if 0 \<le> b then NegInf else PosInf)"
| "js_div PosInf y = NaN"
| "js_div NegInf y = NaN"

fun js_abs :: "number \<Rightarrow> number" where
  "js_abs (Fin a) = Fin \<bar>a\<bar>"
| "js_abs PosInf = PosInf"
| "js_abs NegInf = PosInf"
| "js_abs NaN = NaN"

text \<open>The comparison operators: every comparison with NaN is false.\<close>

fun js_lt :: "number \<Rightarrow> number \<Rightarrow> bool" where
  "js_lt (Fin a) (Fin b) \<longleftrightarrow> a < b"
| "js_lt NaN y \<longleftrightarrow> False"
| "js_lt x NaN \<longleftrightarrow> False"
| "js_lt x NegInf \<longleftrightarrow> False"
| "js_lt NegInf y \<longleftrightarrow> True"
| "js_lt PosInf y \<longleftrightarrow> False"
| "js_lt x PosInf \<longleftrightarrow> True"

fun js_le :: "number \<Rightarrow> number \<Rightarrow> bool" where
  "js_le (Fin a) (Fin b) \<longleftrightarrow> a \<le> b"
| "js_le NaN y \<longleftrightarrow> False"
| "js_le x NaN \<longleftrightarrow> False"
| "js_le NegInf y \<longleftrightarrow> True"
| "js_le x NegInf \<longleftrightarrow> False"
| "js_le x PosInf \<longleftrightarrow> True"
| "js_le PosInf y \<longleftrightarrow> False"

text \<open>
  The operators of the source are written with their usual symbols:
  \<open>x + y\<close>, \<open>x - y\<close>, \<open>x * y\<close>, \<open>x / y\<close>, \<open>- x\<close>, \<open>x < y\<close> and \<open>x \<le> y\<close> on
  \<^typ>\<open>number\<close> are the functions above (\<open>x \<ge> y\<close> is \<open>y \<le> x\<close>, \<open>x > y\<close> is \<open>y < x\<close>).
\<close>

instantiation number :: "{uminus, plus, minus, times, inverse, abs, ord}"
begin
definition uminus_number_def [simp]: "- x = js_neg x"
definition plus_number_def [simp]: "x + y = js_add x y"
definition minus_number_def [simp]: "x - y = js_add x (js_neg y)"
definition times_number_def [simp]: "x * y = js_mul x y"
definition divide_number_def [simp]: "divide x y = js_div x y"
definition inverse_number_def [simp]: "inverse x = js_div (Fin 1) x"
definition abs_number_def [simp]: "\<bar>x\<bar> = js_abs x"
definition less_number_def [simp]: "x < y \<longleftrightarrow> js_lt x y"
definition less_eq_number_def [simp]: "x \<le> y \<longleftrightarrow> js_le x y"
instance ..
end

text \<open>\<open>Math.min\<close> and \<open>Math.max\<close> of two arguments: NaN if either argument is NaN.\<close>

fun Math_min :: "number \<Rightarrow> number \<Rightarrow> number" where
  "Math_min (Fin a) (Fin b) = Fin (min a b)"
| "Math_min NaN y = NaN"
| "Math_min x NaN = NaN"
| "Math_min NegInf y = NegInf"
| "Math_min x NegInf = NegInf"
| "Math_min PosInf y = y"
| "Math_min x PosInf = x"

fun Math_max :: "number \<Rightarrow> number \<Rightarrow> number" where
  "Math_max (Fin a) (Fin b) = Fin (max a b)"
| "Math_max NaN y = NaN"
| "Math_max x NaN = NaN"
| "Math_max PosInf y = PosInf"
| "Math_max x PosInf = PosInf"
| "Math_max NegInf y = y"
| "Math_max x NegInf = x"

fun Math_floor :: "number \<Rightarrow> number" where
  "Math_floor (Fin a) = Fin (of_int \<lfloor>a\<rfloor>)"
| "Math_floor x = x"

definition Math_abs :: "number \<Rightarrow> number" where
  "Math_abs x = js_abs x"

text \<open>
  \<open>Math.log\<close>: the natural logarithm on the positive numbers, \<open>-Infinity\<close> at zero and
  NaN on the negative numbers. (HOL's \<^term>\<open>ln\<close> is total, so the domain is written out.)
\<close>

fun Math_log :: "number \<Rightarrow> number" where
  "Math_log (Fin a) = (if 0 < a then Fin (ln a) else if a = 0 then NegInf else NaN)"
| "Math_log PosInf = PosInf"
| "Math_log NegInf = NaN"
| "Math_log NaN = NaN"

text \<open>
  \<open>Math.pow b e\<close> for a finite base \<open>b\<close> greater than one. The source only calls it as
  \<open>Math.pow(1 + rate, _)\<close> with \<open>rate = 2\<close>.
\<close>

fun Math_pow :: "real \<Rightarrow> number \<Rightarrow> number" where
  "Math_pow b (Fin e) = Fin (b powr e)"
| "Math_pow b PosInf = PosInf"
| "Math_pow b NegInf = Fin 0"
| "Math_pow b NaN = NaN"

text \<open>Truthiness of a number, and \<open>x || y\<close> on numbers: zero and NaN are falsy.\<close>

fun truthy :: "number \<Rightarrow> bool" where
  "truthy (Fin a) \<longleftrightarrow> a \<noteq> 0"
| "truthy NaN \<longleftrightarrow> False"
| "truthy PosInf \<longleftrightarrow> True"
| "truthy NegInf \<longleftrightarrow> True"

definition js_or :: "number \<Rightarrow> number \<Rightarrow> number" where
  "js_or x y = (if truthy x then x else y)"

fun Number_isFinite :: "number \<Rightarrow> bool" where
  "Number_isFinite (Fin a) \<longleftrightarrow> True"
| "Number_isFinite x \<longleftrightarrow> False"

subsection \<open>Rounding to double\<close>

text \<open>
  A JavaScript arithmetic operation returns the exact result rounded to the nearest
  double (IEEE 754 binary64, round to nearest, ties to even). \<open>binadeExp x\<close> is the
  exponent of the binade of \<open>x\<close>, not below the exponent \<open>-1022\<close> of the subnormal
  numbers; the doubles of that binade are the multiples of \<open>2 powr (binadeExp x - 52)\<close>.
  A result of magnitude \<open>2 ^ 1024\<close> or more is an infinity. \<open>fl\<close> rounds a number, and is
  also what reading a decimal numeral gives (\<open>Number\<close>, \<open>parseFloat\<close>, a JSON number).
\<close>

definition binadeExp :: "real \<Rightarrow> int" where
  "binadeExp x = max \<lfloor>log 2 \<bar>x\<bar>\<rfloor> (- 1022)"

definition roundHalfEven :: "real \<Rightarrow> int" where
  "roundHalfEven q =
     (let f = \<lfloor>q\<rfloor>; r = q - of_int f
      in if r < 1 / 2 then f
         else if 1 / 2 < r then f + 1
         else if even f then f else f + 1)"

definition roundDouble :: "real \<Rightarrow> number" where
  "roundDouble x =
     (if x = 0 then Fin 0
      else
        (let u = 2 powr (of_int (binadeExp x) - 52);
             y = of_int (roundHalfEven (x / u)) * u
         in if 2 ^ 1024 \<le> \<bar>y\<bar> then (if 0 < x then PosInf else NegInf) else Fin y))"

fun fl :: "number \<Rightarrow> number" where
  "fl (Fin a) = roundDouble a"
| "fl PosInf = PosInf"
| "fl NegInf = NegInf"
| "fl NaN = NaN"

section \<open>Bonding-curve pricing (server/raydium-launchlab.ts)\<close>

definition PLATFORM_FEE_RATE :: number where
  "PLATFORM_FEE_RATE = Fin 0.0025"

record BuyPrice =
  tokensOut :: number
  priceImpact :: number
  fee :: number

record SellPrice =
  solOut :: number
  priceImpact :: number
  fee :: number

record QuoteResult =
  amountIn :: number
  amountOut :: number
  fee :: number
  priceImpact :: number
  currentPrice :: number
  newPrice :: number

text \<open>
  The curve type reaches these functions as the text column of the launch, cast to the
  union \<open>'linear' | 'exponential' | 'logarithmic'\<close>; it is a string, and the \<open>default\<close>
  branches of the switches are kept. The callers pass every argument, so the default
  values of \<open>totalSupply\<close> and \<open>targetRaised\<close> are not used.
\<close>

definition calculateBuyPrice ::
  "number \<Rightarrow> number \<Rightarrow> string \<Rightarrow> number \<Rightarrow> number \<Rightarrow> BuyPrice" where
  "calculateBuyPrice currentRaised solAmount curveType totalSupply targetRaised =
    (let fee = solAmount * PLATFORM_FEE_RATE;
         netSolAmount = solAmount - fee;
         progress = currentRaised / targetRaised;
         tokensAvailable = totalSupply * Fin 0.8;
         tokensSold = tokensAvailable * progress;
         tokensRemaining = tokensAvailable - tokensSold;
         initialPrice = targetRaised / tokensAvailable;
         (tokensOut, priceImpact) =
           (if curveType = ''linear'' then
              (let slope = initialPrice * Fin 0.5;
                   currentPrice = initialPrice + slope * progress;
                   endProgress = (currentRaised + netSolAmount) / targetRaised;
                   endPrice = initialPrice + slope * endProgress;
                   avgPrice = (currentPrice + endPrice) / Fin 2
               in (netSolAmount / avgPrice,
                   ((endPrice - currentPrice) / currentPrice) * Fin 100))
            else if curveType = ''exponential'' then
              (let rate = 2;
                   currentPrice = initialPrice * Math_pow (1 + rate) progress;
                   endProgress = (currentRaised + netSolAmount) / targetRaised;
                   endPrice = initialPrice * Math_pow (1 + rate) endProgress
               in (netSolAmount / ((currentPrice + endPrice) / Fin 2),
                   ((endPrice - currentPrice) / currentPrice) * Fin 100))
            else if curveType = ''logarithmic'' then
              (let multiplier = Fin 10;
                   currentPrice = initialPrice * (Fin 1 + multiplier * Math_log (Fin 1 + progress));
                   endProgress = (currentRaised + netSolAmount) / targetRaised;
                   endPrice = initialPrice * (Fin 1 + multiplier * Math_log (Fin 1 + endProgress))
               in (netSolAmount / ((currentPrice + endPrice) / Fin 2),
                   ((endPrice - currentPrice) / currentPrice) * Fin 100))
            else (netSolAmount / initialPrice, Fin 0));
         tokensOut = Math_min tokensOut tokensRemaining
     in \<lparr> tokensOut = Math_floor tokensOut,
          BuyPrice.priceImpact = Math_min priceImpact (Fin 100),
          BuyPrice.fee = fee \<rparr>)"

definition calculateSellPrice ::
  "number \<Rightarrow> number \<Rightarrow> string \<Rightarrow> number \<Rightarrow> number \<Rightarrow> SellPrice" where
  "calculateSellPrice currentRaised tokenAmount curveType totalSupply targetRaised =
    (let progress = currentRaised / targetRaised;
         tokensAvailable = totalSupply * Fin 0.8;
         tokensSold = tokensAvailable * progress;
         initialPrice = targetRaised / tokensAvailable;
         (grossSolOut, priceImpact) =
           (if curveType = ''linear'' then
              (let slope = initialPrice * Fin 0.5;
                   currentPrice = initialPrice + slope * progress;
                   tokensSoldAfter = tokensSold - tokenAmount;
                   endProgress = tokensSoldAfter / tokensAvailable;
                   endPrice = initialPrice + slope * endProgress;
                   avgPrice = (currentPrice + endPrice) / Fin 2
               in (tokenAmount * avgPrice,
                   ((currentPrice - endPrice) / currentPrice) * Fin 100))
            else if curveType = ''exponential'' then
              (let rate = 2;
                   currentPrice = initialPrice * Math_pow (1 + rate) progress;
                   tokensSoldAfter = tokensSold - tokenAmount;
                   endProgress = tokensSoldAfter / tokensAvailable;
                   endPrice = initialPrice * Math_pow (1 + rate) endProgress
               in (tokenAmount * ((currentPrice + endPrice) / Fin 2),
                   ((currentPrice - endPrice) / currentPrice) * Fin 100))
            else if curveType = ''logarithmic'' then
              (let multiplier = Fin 10;
                   currentPrice = initialPrice * (Fin 1 + multiplier * Math_log (Fin 1 + progress));
                   tokensSoldAfter = tokensSold - tokenAmount;
                   endProgress = tokensSoldAfter / tokensAvailable;
                   endPrice = initialPrice * (Fin 1 + multiplier * Math_log (Fin 1 + endProgress))
               in (tokenAmount * ((currentPrice + endPrice) / Fin 2),
                   ((currentPrice - endPrice) / currentPrice) * Fin 100))
            else (tokenAmount * initialPrice, Fin 0));
         grossSolOut = Math_min grossSolOut currentRaised;
         fee = grossSolOut * PLATFORM_FEE_RATE;
         solOut = grossSolOut - fee
     in \<lparr> solOut = Math_max solOut (Fin 0),
          SellPrice.priceImpact = Math_min (Math_abs priceImpact) (Fin 100),
          SellPrice.fee = fee \<rparr>)"

definition getCurrentPrice :: "number \<Rightarrow> string \<Rightarrow> number \<Rightarrow> number \<Rightarrow> number" where
  "getCurrentPrice currentRaised curveType totalSupply targetRaised =
    (let progress = currentRaised / targetRaised;
         tokensAvailable = totalSupply * Fin 0.8;
         initialPrice = targetRaised / tokensAvailable
     in if curveType = ''linear'' then
          (let slope = initialPrice * Fin 0.5 in initialPrice + slope * progress)
        else if curveType = ''exponential'' then
          (let rate = 2 in initialPrice * Math_pow (1 + rate) progress)
        else if curveType = ''logarithmic'' then
          (let multiplier = Fin 10
           in initialPrice * (Fin 1 + multiplier * Math_log (Fin 1 + progress)))
        else initialPrice)"

definition getBuyQuote ::
  "number \<Rightarrow> number \<Rightarrow> string \<Rightarrow> number \<Rightarrow> number \<Rightarrow> QuoteResult" where
  "getBuyQuote solAmount currentRaised curveType totalSupply targetRaised =
    (let result = calculateBuyPrice currentRaised solAmount curveType totalSupply targetRaised;
         currentPrice = getCurrentPrice currentRaised curveType totalSupply targetRaised;
         newRaised = currentRaised + solAmount - BuyPrice.fee result;
         newPrice = getCurrentPrice newRaised curveType totalSupply targetRaised
     in \<lparr> amountIn = solAmount,
          amountOut = tokensOut result,
          fee = BuyPrice.fee result,
          priceImpact = BuyPrice.priceImpact result,
          currentPrice = currentPrice,
          newPrice = newPrice \<rparr>)"

definition getSellQuote ::
  "number \<Rightarrow> number \<Rightarrow> string \<Rightarrow> number \<Rightarrow> number \<Rightarrow> QuoteResult" where
  "getSellQuote tokenAmount currentRaised curveType totalSupply targetRaised =
    (let result = calculateSellPrice currentRaised tokenAmount curveType totalSupply targetRaised;
         currentPrice = getCurrentPrice currentRaised curveType totalSupply targetRaised;
         newRaised = currentRaised - solOut result - SellPrice.fee result;
         newPrice = getCurrentPrice (Math_max (Fin 0) newRaised) curveType totalSupply targetRaised
     in \<lparr> amountIn = tokenAmount,
          amountOut = solOut result,
          fee = SellPrice.fee result,
          priceImpact = SellPrice.priceImpact result,
          currentPrice = currentPrice,
          newPrice = newPrice \<rparr>)"

section \<open>On-chain trade verification (server/launchlab.ts)\<close>

text \<open>
  The parsed transaction that the RPC node returns, reduced to the fields that
  \<open>verifyTradeTransaction\<close> reads. Lamport balances are natural numbers and a token
  balance's \<open>uiAmount\<close> is a decimal number or \<open>null\<close>, as the node's JSON answer writes
  them; the program reads each as the nearest double. A parsed \<open>spl-token\<close> instruction carries its
  \<open>type\<close> and an \<open>info\<close> object whose fields may be absent; an instruction without
  \<open>program\<close> and \<open>parsed\<close> is \<open>PartiallyDecoded\<close>.
\<close>

record AccountKey =
  pubkey :: string
  signer :: bool

record InstructionInfo =
  mint :: "string option"
  source :: "string option"
  destination :: "string option"
  account :: "string option"

datatype Instruction =
    Parsed string string InstructionInfo
  | PartiallyDecoded

record TokenBalance =
  accountIndex :: nat
  uiAmount :: "real option"

record TransactionMeta =
  err :: bool
  innerInstructions :: "Instruction list list"
  preTokenBalances :: "TokenBalance list"
  postTokenBalances :: "TokenBalance list"
  preBalances :: "nat list"
  postBalances :: "nat list"

record ParsedTransaction =
  accountKeys :: "AccountKey list"
  instructions :: "Instruction list"
  meta :: "TransactionMeta option"

text \<open>
  What the process reads from outside: the RPC call \<open>connection.getParsedTransaction\<close>
  (which may throw, return \<open>null\<close> or return a transaction), the derivation of the
  associated token account
  \<open>getAssociatedTokenAddressSync(new PublicKey(mint), new PublicKey(owner)).toBase58()\<close>
  (\<open>None\<close> when a \<open>PublicKey\<close> constructor or the derivation throws), and
  \<open>isValidSolanaAddress\<close> (whether \<open>new PublicKey(address)\<close> succeeds).
\<close>

datatype RpcResult = RpcThrows | RpcNull | RpcTx ParsedTransaction

record Env =
  getParsedTransaction :: "string \<Rightarrow> RpcResult"
  getAssociatedTokenAddressSync :: "string \<Rightarrow> string \<Rightarrow> string option"
  isValidSolanaAddress :: "string \<Rightarrow> bool"

record VerifyTradeParams =
  signature :: string
  expectedWallet :: string
  expectedMint :: string
  expectedSolAmount :: number
  isBuy :: bool

text \<open>
  The result \<open>{valid: false, error}\<close> is an error value, one constructor for each message
  of the source; \<open>Thrown\<close> is the result of the \<open>catch\<close> block. The result
  \<open>{valid: true, solAmount, walletAddress, mintAddress}\<close> is a \<open>TradeVerification\<close>.
\<close>

datatype VerifyError =
    TransactionNotFound
  | TransactionFailedOnChain
  | WalletNotSigner
  | NoTokenTransferFound
  | MintNotInvolved
  | ExpectedTokenIncrease
  | ExpectedTokenDecrease
  | WalletNotInAccounts
  | SolAmountMismatch number number
  | Thrown

record TradeVerification =
  solAmount :: number
  walletAddress :: string
  mintAddress :: string

definition LAMPORTS_PER_SOL :: number where
  "LAMPORTS_PER_SOL = Fin 1000000000"

text \<open>\<open>Array.prototype.findIndex\<close>, with \<open>None\<close> for \<open>-1\<close>.\<close>

fun findIndex :: "('a \<Rightarrow> bool) \<Rightarrow> 'a list \<Rightarrow> nat option" where
  "findIndex P [] = None"
| "findIndex P (x # xs) =
     (if P x then Some 0 else map_option Suc (findIndex P xs))"

text \<open>\<open>balances[i] || 0\<close>: an index out of range reads \<open>undefined\<close>, which is falsy.\<close>

definition balanceAt :: "nat list \<Rightarrow> nat \<Rightarrow> number" where
  "balanceAt balances i =
     (if i < length balances then fl (Fin (real (balances ! i))) else Fin 0)"

text \<open>
  \<open>parseFloat(balance?.uiTokenAmount?.uiAmount?.toString() || '0')\<close>: the amount, or zero
  when the entry or its amount is missing.
\<close>

definition uiAmountOf :: "TokenBalance option \<Rightarrow> number" where
  "uiAmountOf b =
     (case b of None \<Rightarrow> Fin 0
      | Some e \<Rightarrow> (case uiAmount e of None \<Rightarrow> Fin 0 | Some a \<Rightarrow> fl (Fin a)))"

definition walletIsSigner :: "AccountKey list \<Rightarrow> string \<Rightarrow> bool" where
  "walletIsSigner keys wallet = list_ex (\<lambda>k. pubkey k = wallet \<and> signer k = True) keys"

definition allInstructions :: "ParsedTransaction \<Rightarrow> Instruction list" where
  "allInstructions tx =
     instructions tx @
     concat (case meta tx of None \<Rightarrow> [] | Some m \<Rightarrow> innerInstructions m)"

definition tokenInstructionTypes :: "string list" where
  "tokenInstructionTypes =
     [''transfer'', ''transferChecked'', ''mintTo'', ''burn'', ''burnChecked'']"

text \<open>
  The loop over all instructions (lines 371 to 406). The result is
  \<open>(mintVerified, tokenTransferFound)\<close>, or \<open>Inl Thrown\<close> when the derivation of the
  associated token account throws inside the loop. \<open>ata\<close> is the result of that
  derivation for the expected mint and wallet.
\<close>

fun scanInstructions ::
  "string option \<Rightarrow> string \<Rightarrow> Instruction list \<Rightarrow> bool \<Rightarrow> VerifyError + (bool \<times> bool)" where
  "scanInstructions ata expMint [] found = Inr (False, found)"
| "scanInstructions ata expMint (PartiallyDecoded # rest) found =
     scanInstructions ata expMint rest found"
| "scanInstructions ata expMint (Parsed program instructionType info # rest) found =
     (if program = ''spl-token'' \<and> instructionType \<in> set tokenInstructionTypes then
        (if mint info = Some expMint then Inr (True, True)
         else (case ata of
                 None \<Rightarrow> Inl Thrown
               | Some expectedAta \<Rightarrow>
                   if source info = Some expectedAta \<or> destination info = Some expectedAta
                      \<or> account info = Some expectedAta
                   then Inr (True, True)
                   else scanInstructions ata expMint rest True))
      else scanInstructions ata expMint rest found)"

text \<open>
  The token balance change of the wallet's associated token account, read at the
  account's index in the transaction (lines 425 to 434).
\<close>

definition tokenChangeAt :: "ParsedTransaction \<Rightarrow> nat \<Rightarrow> number" where
  "tokenChangeAt tx ataIndex =
     (let pre = (case meta tx of None \<Rightarrow> [] | Some m \<Rightarrow> preTokenBalances m);
          post = (case meta tx of None \<Rightarrow> [] | Some m \<Rightarrow> postTokenBalances m);
          preBalance = List.find (\<lambda>b. accountIndex b = ataIndex) pre;
          postBalance = List.find (\<lambda>b. accountIndex b = ataIndex) post;
          preBal = uiAmountOf preBalance;
          postBal = uiAmountOf postBalance
      in fl (postBal - preBal))"

text \<open>
  The direction check (lines 416 to 444): it is made only when the associated token
  account is one of the transaction's account keys.
\<close>

definition checkTokenDirection ::
  "ParsedTransaction \<Rightarrow> string \<Rightarrow> bool \<Rightarrow> VerifyError option" where
  "checkTokenDirection tx expectedAta buy =
     (case findIndex (\<lambda>k. pubkey k = expectedAta) (accountKeys tx) of
        None \<Rightarrow> None
      | Some ataIndex \<Rightarrow>
          (let tokenChange = tokenChangeAt tx ataIndex
           in if buy \<and> tokenChange \<le> Fin 0 then Some ExpectedTokenIncrease
              else if \<not> buy \<and> tokenChange \<ge> Fin 0 then Some ExpectedTokenDecrease
              else None))"

text \<open>The SOL amount observed on chain for the wallet at \<open>walletIndex\<close> (lines 456 to 462).\<close>

definition actualSolAmountAt :: "ParsedTransaction \<Rightarrow> nat \<Rightarrow> bool \<Rightarrow> number" where
  "actualSolAmountAt tx walletIndex buy =
     (let pre = (case meta tx of None \<Rightarrow> [] | Some m \<Rightarrow> preBalances m);
          post = (case meta tx of None \<Rightarrow> [] | Some m \<Rightarrow> postBalances m);
          preBal = balanceAt pre walletIndex;
          postBal = balanceAt post walletIndex;
          balanceChange = fl (fl (postBal - preBal) / LAMPORTS_PER_SOL)
      in if buy then - balanceChange else balanceChange)"

text \<open>The SOL amount check and the successful result (lines 446 to 480).\<close>

definition checkSolAmount ::
  "ParsedTransaction \<Rightarrow> VerifyTradeParams \<Rightarrow> VerifyError + TradeVerification" where
  "checkSolAmount tx params =
     (case findIndex (\<lambda>k. pubkey k = expectedWallet params) (accountKeys tx) of
        None \<Rightarrow> Inl WalletNotInAccounts
      | Some walletIndex \<Rightarrow>
          (let actualSolAmount = actualSolAmountAt tx walletIndex (isBuy params);
               tolerance = fl (fl (expectedSolAmount params * fl (Fin 0.05)) + fl (Fin 0.001));
               amountDiff = Math_abs (fl (actualSolAmount - expectedSolAmount params))
           in if amountDiff > tolerance
              then Inl (SolAmountMismatch (expectedSolAmount params) actualSolAmount)
              else Inr \<lparr> solAmount = actualSolAmount,
                         walletAddress = expectedWallet params,
                         mintAddress = expectedMint params \<rparr>))"

definition verifyTradeTransaction ::
  "Env \<Rightarrow> VerifyTradeParams \<Rightarrow> VerifyError + TradeVerification" where
  "verifyTradeTransaction env params =
     (case getParsedTransaction env (signature params) of
        RpcThrows \<Rightarrow> Inl Thrown
      | RpcNull \<Rightarrow> Inl TransactionNotFound
      | RpcTx tx \<Rightarrow>
          if (case meta tx of None \<Rightarrow> False | Some m \<Rightarrow> err m) then Inl TransactionFailedOnChain
          else if \<not> walletIsSigner (accountKeys tx) (expectedWallet params)
          then Inl WalletNotSigner
          else
            (let ata = getAssociatedTokenAddressSync env (expectedMint params)
                         (expectedWallet params)
             in case scanInstructions ata (expectedMint params) (allInstructions tx) False of
                  Inl e \<Rightarrow> Inl e
                | Inr (mintVerified, tokenTransferFound) \<Rightarrow>
                    if \<not> tokenTransferFound then Inl NoTokenTransferFound
                    else if \<not> mintVerified then Inl MintNotInvolved
                    else
                      (case ata of
                         None \<Rightarrow> Inl Thrown
                       | Some expectedAta \<Rightarrow>
                           (case checkTokenDirection tx expectedAta (isBuy params) of
                              Some e \<Rightarrow> Inl e
                            | None \<Rightarrow> checkSolAmount tx params))))"

section \<open>Trade confirmation handlers (server/routes.ts, server/storage.ts)\<close>

text \<open>
  A row of the table \<open>token_launches\<close> (shared/schema.ts). The text columns
  \<open>totalSupply\<close>, \<open>fundraisingTarget\<close> and \<open>currentRaised\<close> hold decimal numbers, which the
  handlers read with \<open>parseFloat\<close> and write with \<open>toString\<close>; the model keeps the number
  that the text denotes. \<open>holders\<close> and \<open>volume24h\<close> are nullable integer columns. The
  other nullable columns are options. The status is the text of the column: \<open>active\<close>,
  \<open>graduated\<close> or \<open>failed\<close>.
\<close>

record TokenLaunch =
  id' :: string
  mintAddress :: string
  poolId :: "string option"
  name :: string
  symbol :: string
  description :: "string option"
  imageUrl :: "string option"
  metadataUri :: "string option"
  website :: "string option"
  twitter :: "string option"
  telegram :: "string option"
  curveType :: string
  totalSupply :: number
  fundraisingTarget :: number
  currentRaised :: number
  creatorAddress :: string
  status :: string
  txSignature :: "string option"
  platformId :: "string option"
  holders :: "int option"
  volume24h :: "int option"
  createdAt :: "nat option"

text \<open>
  The columns that the two handlers pass to \<open>storage.updateLaunch\<close>
  (a \<open>Partial<TokenLaunch>\<close>); a column that is not passed is \<open>None\<close>. The handlers pass
  JavaScript numbers for the integer columns.
\<close>

record LaunchUpdate =
  setCurrentRaised :: "number option"
  setStatus :: "string option"
  setHolders :: "number option"
  setVolume24h :: "number option"

text \<open>
  What the database makes of a number written to an \<open>integer\<close> column: the integer, when
  the number is a whole number of the 32-bit range, and an error otherwise (a fraction,
  a number out of range, an infinity or NaN).
\<close>

fun int32Column :: "number \<Rightarrow> int option" where
  "int32Column (Fin a) =
     (if of_int \<lfloor>a\<rfloor> = a \<and> - 2147483648 \<le> \<lfloor>a\<rfloor> \<and> \<lfloor>a\<rfloor> \<le> 2147483647
      then Some \<lfloor>a\<rfloor> else None)"
| "int32Column PosInf = None"
| "int32Column NegInf = None"
| "int32Column NaN = None"

text \<open>
  A new value for a nullable integer column: \<open>None\<close> when the database refuses the
  number, otherwise the column's content after the update.
\<close>

definition setIntColumn :: "number option \<Rightarrow> int option \<Rightarrow> int option option" where
  "setIntColumn new old =
     (case new of
        None \<Rightarrow> Some old
      | Some x \<Rightarrow> (case int32Column x of None \<Rightarrow> None | Some k \<Rightarrow> Some (Some k)))"

text \<open>
  The storage maps a launch id to its row. \<open>getLaunchById\<close> reads a row.
  \<open>updateLaunch\<close> is one \<open>UPDATE ... SET ... WHERE id = ... RETURNING\<close>: it throws
  (\<open>None\<close>) when the database refuses a value for an integer column, and then no column
  is written; otherwise it sets the given columns of the row with that id and returns
  the updated row, or \<open>undefined\<close> when there is none. The handlers run one after the
  other.
\<close>

type_synonym Storage = "string \<rightharpoonup> TokenLaunch"

definition getLaunchById :: "Storage \<Rightarrow> string \<Rightarrow> TokenLaunch option" where
  "getLaunchById st launchId = st launchId"

definition applyUpdate :: "LaunchUpdate \<Rightarrow> TokenLaunch \<Rightarrow> TokenLaunch option" where
  "applyUpdate updates row =
     (case setIntColumn (setHolders updates) (holders row) of
        None \<Rightarrow> None
      | Some newHolders \<Rightarrow>
          (case setIntColumn (setVolume24h updates) (volume24h row) of
             None \<Rightarrow> None
           | Some newVolume24h \<Rightarrow>
               Some (row\<lparr> currentRaised :=
                           (case setCurrentRaised updates of
                              None \<Rightarrow> currentRaised row | Some c \<Rightarrow> c),
                         status :=
                           (case setStatus updates of None \<Rightarrow> status row | Some s \<Rightarrow> s),
                         holders := newHolders,
                         volume24h := newVolume24h \<rparr>)))"

definition integersAccepted :: "LaunchUpdate \<Rightarrow> bool" where
  "integersAccepted updates =
     (setIntColumn (setHolders updates) None \<noteq> None \<and>
      setIntColumn (setVolume24h updates) None \<noteq> None)"

definition updateLaunch ::
  "Storage \<Rightarrow> string \<Rightarrow> LaunchUpdate \<Rightarrow> (TokenLaunch option \<times> Storage) option" where
  "updateLaunch st launchId updates =
     (case st launchId of
        None \<Rightarrow> (if integersAccepted updates then Some (None, st) else None)
      | Some row \<Rightarrow>
          (case applyUpdate updates row of
             None \<Rightarrow> None
           | Some row' \<Rightarrow> Some (Some row', st(launchId \<mapsto> row'))))"

text \<open>
  The request bodies: \<open>txSignature\<close> is \<open>None\<close> when it is missing or not a string, and
  the numeric fields are the numbers as the request writes them, which \<open>Number(_)\<close>
  reads as doubles.
\<close>

record ConfirmBuyBody =
  buyTxSignature :: "string option"
  buyWalletAddress :: string
  buySolAmount :: number
  tokensReceived :: number

record ConfirmSellBody =
  sellTxSignature :: "string option"
  sellWalletAddress :: string
  tokenAmount :: number
  solReceived :: number

text \<open>
  The responses: an error with its status code and message (400, 400 with the details of
  the verification, 404, and the 500 of the handler's \<open>catch\<close> block), or the success
  body. The launch in a success body is the updated row (the source sends
  \<open>calculateTokenMetrics\<close> of it).
\<close>

datatype Response =
    BadRequest string
  | VerificationFailed VerifyError
  | NotFound string
  | ServerError string
  | BuyConfirmed bool string number number "TokenLaunch option"
  | SellConfirmed string number number "TokenLaunch option"

text \<open>
  The validation of a numeric field: \<open>!Number.isFinite(n) || n <= 0\<close>.
\<close>

definition notPositiveNumber :: "number \<Rightarrow> bool" where
  "notPositiveNumber n = (\<not> Number_isFinite n \<or> n \<le> Fin 0)"

text \<open>\<open>value || 0\<close> on a nullable integer column.\<close>

definition orZero :: "int option \<Rightarrow> number" where
  "orZero v = (case v of None \<Rightarrow> Fin 0 | Some k \<Rightarrow> Fin (of_int k))"

text \<open>
  The columns that the buy handler writes (lines 907 to 922), from the launch it read
  and the verified amount \<open>verification.solAmount || solAmountNum\<close>.
\<close>

definition verifiedBuyAmount :: "number \<Rightarrow> number \<Rightarrow> number" where
  "verifiedBuyAmount verificationSolAmount solAmountNum =
     js_or verificationSolAmount solAmountNum"

definition buyUpdates :: "TokenLaunch \<Rightarrow> number \<Rightarrow> LaunchUpdate" where
  "buyUpdates launch verifiedSolAmount =
     (let currentRaisedNum = fl (currentRaised launch);
          newRaised = fl (currentRaisedNum + verifiedSolAmount);
          fundraisingTargetNum = fl (fundraisingTarget launch);
          newStatus = (if newRaised \<ge> fundraisingTargetNum then ''graduated'' else ''active'');
          newHolders = fl (orZero (holders launch) + Fin 1);
          newVolume24h = fl (orZero (volume24h launch) + fl (verifiedSolAmount * Fin 150))
      in \<lparr> setCurrentRaised = Some newRaised,
           setStatus = Some newStatus,
           setHolders = Some newHolders,
           setVolume24h = Some newVolume24h \<rparr>)"

definition confirmBuy :: "Env \<Rightarrow> Storage \<Rightarrow> string \<Rightarrow> ConfirmBuyBody \<Rightarrow> Response \<times> Storage" where
  "confirmBuy env st launchId body =
     (case buyTxSignature body of
        None \<Rightarrow> (BadRequest ''Valid transaction signature required'', st)
      | Some sig \<Rightarrow>
        if sig = [] then (BadRequest ''Valid transaction signature required'', st)
        else if \<not> isValidSolanaAddress env (buyWalletAddress body)
        then (BadRequest ''Invalid wallet address'', st)
        else
          (let solAmountNum = fl (buySolAmount body);
               tokensReceivedNum = fl (tokensReceived body)
           in if notPositiveNumber solAmountNum
              then (BadRequest ''Invalid SOL amount: must be a positive number'', st)
              else if notPositiveNumber tokensReceivedNum
              then (BadRequest ''Invalid tokens received: must be a positive number'', st)
              else
                (case getLaunchById st launchId of
                   None \<Rightarrow> (NotFound ''Launch not found'', st)
                 | Some launch \<Rightarrow>
                     if status launch \<noteq> ''active''
                     then (BadRequest ''Token has graduated or is not active'', st)
                     else
                       (case verifyTradeTransaction env
                               \<lparr> signature = sig,
                                 expectedWallet = buyWalletAddress body,
                                 expectedMint = mintAddress launch,
                                 expectedSolAmount = solAmountNum,
                                 isBuy = True \<rparr> of
                          Inl e \<Rightarrow> (VerificationFailed e, st)
                        | Inr verification \<Rightarrow>
                            (let verifiedSolAmount =
                                   verifiedBuyAmount (solAmount verification) solAmountNum;
                                 newRaised = fl (fl (currentRaised launch) + verifiedSolAmount);
                                 graduated = (newRaised \<ge> fl (fundraisingTarget launch))
                             in case updateLaunch st launchId
                                       (buyUpdates launch verifiedSolAmount) of
                                  None \<Rightarrow>
                                    (ServerError ''Failed to confirm buy transaction'', st)
                                | Some (updated, st') \<Rightarrow>
                                    (BuyConfirmed graduated sig verifiedSolAmount
                                       tokensReceivedNum updated, st'))))))"

text \<open>The column that the sell handler writes (lines 991 to 997).\<close>

definition sellUpdates :: "TokenLaunch \<Rightarrow> number \<Rightarrow> LaunchUpdate" where
  "sellUpdates launch verifiedSolReceived =
     \<lparr> setCurrentRaised = None,
       setStatus = None,
       setHolders = None,
       setVolume24h =
         Some (fl (orZero (volume24h launch) + fl (verifiedSolReceived * Fin 150))) \<rparr>"

definition confirmSell ::
  "Env \<Rightarrow> Storage \<Rightarrow> string \<Rightarrow> ConfirmSellBody \<Rightarrow> Response \<times> Storage" where
  "confirmSell env st launchId body =
     (case sellTxSignature body of
        None \<Rightarrow> (BadRequest ''Valid transaction signature required'', st)
      | Some sig \<Rightarrow>
        if sig = [] then (BadRequest ''Valid transaction signature required'', st)
        else if \<not> isValidSolanaAddress env (sellWalletAddress body)
        then (BadRequest ''Invalid wallet address'', st)
        else
          (let tokenAmountNum = fl (tokenAmount body);
               solReceivedNum = fl (solReceived body)
           in if notPositiveNumber tokenAmountNum
              then (BadRequest ''Invalid token amount: must be a positive number'', st)
              else if notPositiveNumber solReceivedNum
              then (BadRequest ''Invalid SOL received: must be a positive number'', st)
              else
                (case getLaunchById st launchId of
                   None \<Rightarrow> (NotFound ''Launch not found'', st)
                 | Some launch \<Rightarrow>
                     (case verifyTradeTransaction env
                             \<lparr> signature = sig,
                               expectedWallet = sellWalletAddress body,
                               expectedMint = mintAddress launch,
                               expectedSolAmount = solReceivedNum,
                               isBuy = False \<rparr> of
                        Inl e \<Rightarrow> (VerificationFailed e, st)
                      | Inr verification \<Rightarrow>
                          (let verifiedSolReceived =
                                 js_or (solAmount verification) solReceivedNum
                           in case updateLaunch st launchId
                                     (sellUpdates launch verifiedSolReceived) of
                                None \<Rightarrow>
                                  (ServerError ''Failed to confirm sell transaction'', st)
                              | Some (updated, st') \<Rightarrow>
                                  (SellConfirmed sig verifiedSolReceived tokenAmountNum
                                     updated, st'))))))"

text \<open>A sequence of buy confirmations for one launch, handled one after the other.\<close>

fun confirmBuys :: "Env \<Rightarrow> Storage \<Rightarrow> string \<Rightarrow> ConfirmBuyBody list \<Rightarrow> Storage" where
  "confirmBuys env st launchId [] = st"
| "confirmBuys env st launchId (body # bodies) =
     confirmBuys env (snd (confirmBuy env st launchId body)) launchId bodies"

section \<open>Example launches, requests and transactions\<close>

text \<open>
  A launch with 10 SOL raised of a target of 85; the same launch graduated; the same
  launch with nothing raised and a volume of 150 (one confirmed sell of one SOL); and
  the same launch with the least volume that the integer column holds (a volume is
  written as given by \<open>PATCH /api/launches/:id\<close>, which passes the request body to
  \<open>storage.updateLaunch\<close>). Then transactions
  of one wallet (\<open>Wallet\<close>) whose associated token account for the launch's mint is
  \<open>AtaOfWallet\<close>.
\<close>

definition exampleLaunch :: TokenLaunch where
  "exampleLaunch =
     \<lparr> id' = ''launch-1'', mintAddress = ''MintM'', poolId = None, name = ''Example'',
       symbol = ''EXM'', description = None, imageUrl = None, metadataUri = None,
       website = None, twitter = None, telegram = None, curveType = ''linear'',
       totalSupply = Fin 1000000000, fundraisingTarget = Fin 85, currentRaised = Fin 10,
       creatorAddress = ''Creator'', status = ''active'', txSignature = None,
       platformId = None, holders = Some 3, volume24h = Some 1500,
       createdAt = None \<rparr>"


definition nothingRaisedLaunch :: TokenLaunch where
  "nothingRaisedLaunch =
     exampleLaunch\<lparr> currentRaised := Fin 0, holders := Some 0, volume24h := Some 150 \<rparr>"

definition leastVolumeLaunch :: TokenLaunch where
  "leastVolumeLaunch = exampleLaunch\<lparr> volume24h := Some (- 2147483648) \<rparr>"

definition storageWith :: "TokenLaunch \<Rightarrow> Storage" where
  "storageWith launch = [''launch-1'' \<mapsto> launch]"

definition exampleKeys :: "AccountKey list" where
  "exampleKeys =
     [\<lparr> pubkey = ''Payer'', signer = True \<rparr>,
      \<lparr> pubkey = ''Wallet'', signer = True \<rparr>,
      \<lparr> pubkey = ''AtaOfWallet'', signer = False \<rparr>,
      \<lparr> pubkey = ''PoolVault'', signer = False \<rparr>,
      \<lparr> pubkey = ''PoolSol'', signer = False \<rparr>,
      \<lparr> pubkey = ''MintM'', signer = False \<rparr>,
      \<lparr> pubkey = ''TokenProgram'', signer = False \<rparr>]"

definition tokenTransferToWallet :: Instruction where
  "tokenTransferToWallet =
     Parsed ''spl-token'' ''transferChecked''
       \<lparr> mint = Some ''MintM'', source = Some ''PoolVault'',
         destination = Some ''AtaOfWallet'', account = None \<rparr>"

definition tokenTransferFromWallet :: Instruction where
  "tokenTransferFromWallet =
     Parsed ''spl-token'' ''transferChecked''
       \<lparr> mint = Some ''MintM'', source = Some ''AtaOfWallet'',
         destination = Some ''PoolVault'', account = None \<rparr>"

definition tokenTransferElsewhere :: Instruction where
  "tokenTransferElsewhere =
     Parsed ''spl-token'' ''transferChecked''
       \<lparr> mint = Some ''MintM'', source = Some ''OtherAccountA'',
         destination = Some ''OtherAccountB'', account = None \<rparr>"

text \<open>
  The wallet receives 1000 tokens from the pool's vault and its lamport balance changes
  from \<open>pre\<close> to \<open>post\<close>, the difference going to or coming from \<open>PoolSol\<close>; the fee of
  5000 lamports is paid by \<open>Payer\<close>.
\<close>

definition receiveTokensTx :: "nat \<Rightarrow> nat \<Rightarrow> ParsedTransaction" where
  "receiveTokensTx pre post =
     \<lparr> accountKeys = exampleKeys,
       instructions = [tokenTransferToWallet],
       meta = Some \<lparr> err = False, innerInstructions = [],
                     preTokenBalances = [\<lparr> accountIndex = 2, uiAmount = Some 0 \<rparr>,
                                         \<lparr> accountIndex = 3, uiAmount = Some 800000000 \<rparr>],
                     postTokenBalances = [\<lparr> accountIndex = 2, uiAmount = Some 1000 \<rparr>,
                                          \<lparr> accountIndex = 3, uiAmount = Some 799999000 \<rparr>],
                     preBalances = [5000000000, pre, 2039280, 2039280, 10000000000,
                                    1461600, 934087680],
                     postBalances = [4999995000, post, 2039280, 2039280,
                                     (10000000000 + pre) - post, 1461600, 934087680] \<rparr> \<rparr>"

text \<open>
  The wallet gives 1000 tokens to the pool's vault and its lamport balance changes from
  \<open>pre\<close> to \<open>post\<close>; the fee is paid by \<open>Payer\<close>.
\<close>

definition sellTokensTx :: "nat \<Rightarrow> nat \<Rightarrow> ParsedTransaction" where
  "sellTokensTx pre post =
     \<lparr> accountKeys = exampleKeys,
       instructions = [tokenTransferFromWallet],
       meta = Some \<lparr> err = False, innerInstructions = [],
                     preTokenBalances = [\<lparr> accountIndex = 2, uiAmount = Some 1000 \<rparr>,
                                         \<lparr> accountIndex = 3, uiAmount = Some 799999000 \<rparr>],
                     postTokenBalances = [\<lparr> accountIndex = 2, uiAmount = Some 0 \<rparr>,
                                          \<lparr> accountIndex = 3, uiAmount = Some 800000000 \<rparr>],
                     preBalances = [5000000000, pre, 2039280, 2039280, 10000000000,
                                    1461600, 934087680],
                     postBalances = [4999995000, post, 2039280, 2039280,
                                     (10000000000 + pre) - post, 1461600, 934087680] \<rparr> \<rparr>"

text \<open>
  The wallet signs, pays the fee of 5000 lamports and 999995000 lamports to \<open>Recipient\<close>
  (one SOL in all), and moves 1000 tokens of the mint from \<open>OtherAccountA\<close> to
  \<open>OtherAccountB\<close>, neither of which is the wallet's associated token account; that
  account is not an account of the transaction.
\<close>

definition unrelatedTransferTx :: ParsedTransaction where
  "unrelatedTransferTx =
     \<lparr> accountKeys =
         [\<lparr> pubkey = ''Wallet'', signer = True \<rparr>,
          \<lparr> pubkey = ''OtherAccountA'', signer = False \<rparr>,
          \<lparr> pubkey = ''OtherAccountB'', signer = False \<rparr>,
          \<lparr> pubkey = ''Recipient'', signer = False \<rparr>,
          \<lparr> pubkey = ''MintM'', signer = False \<rparr>,
          \<lparr> pubkey = ''TokenProgram'', signer = False \<rparr>],
       instructions = [tokenTransferElsewhere],
       meta = Some \<lparr> err = False, innerInstructions = [],
                     preTokenBalances = [\<lparr> accountIndex = 1, uiAmount = Some 1000 \<rparr>,
                                         \<lparr> accountIndex = 2, uiAmount = Some 0 \<rparr>],
                     postTokenBalances = [\<lparr> accountIndex = 1, uiAmount = Some 0 \<rparr>,
                                          \<lparr> accountIndex = 2, uiAmount = Some 1000 \<rparr>],
                     preBalances = [5000000000, 2039280, 2039280, 0, 1461600, 934087680],
                     postBalances = [4000000000, 2039280, 2039280, 999995000, 1461600,
                                     934087680] \<rparr> \<rparr>"

text \<open>The chain holds one transaction, with signature \<open>sig-1\<close>.\<close>

definition envWith :: "ParsedTransaction \<Rightarrow> Env" where
  "envWith tx =
     \<lparr> getParsedTransaction = (\<lambda>s. if s = ''sig-1'' then RpcTx tx else RpcNull),
       getAssociatedTokenAddressSync =
         (\<lambda>m w. if m = ''MintM'' \<and> w = ''Wallet'' then Some ''AtaOfWallet'' else None),
       isValidSolanaAddress = (\<lambda>a. True) \<rparr>"

definition buyParams :: "number \<Rightarrow> VerifyTradeParams" where
  "buyParams expected =
     \<lparr> signature = ''sig-1'', expectedWallet = ''Wallet'', expectedMint = ''MintM'',
       expectedSolAmount = expected, isBuy = True \<rparr>"

definition sellParams :: "number \<Rightarrow> VerifyTradeParams" where
  "sellParams expected =
     \<lparr> signature = ''sig-1'', expectedWallet = ''Wallet'', expectedMint = ''MintM'',
       expectedSolAmount = expected, isBuy = False \<rparr>"

definition buyBody :: "number \<Rightarrow> ConfirmBuyBody" where
  "buyBody claimed =
     \<lparr> buyTxSignature = Some ''sig-1'', buyWalletAddress = ''Wallet'',
       buySolAmount = claimed, tokensReceived = Fin 1000 \<rparr>"

definition sellBody :: "number \<Rightarrow> ConfirmSellBody" where
  "sellBody claimed =
     \<lparr> sellTxSignature = Some ''sig-1'', sellWalletAddress = ''Wallet'',
       tokenAmount = Fin 1000, solReceived = claimed \<rparr>"

section \<open>Properties of the price functions\<close>

text \<open>
  C5. For \<open>totalSupply = 1000000000\<close>, \<open>fundraisingTarget = 85\<close>, the linear curve,
  \<open>currentRaised = 0\<close> and \<open>solAmount = 1\<close>, \<open>getBuyQuote\<close> returns the fee \<open>0.0025\<close> and
  an \<open>amountOut\<close> within 0.1 percent of the trapezoid value
  \<open>netS / ((priceStart + priceEnd) / 2)\<close>, where \<open>netS = 0.9975\<close>,
  \<open>priceStart = 85 / (0.8 * 1e9) = 1.0625e-7\<close> and
  \<open>priceEnd = priceStart * (1 + 0.5 * (netS / 85))\<close>.
\<close>

theorem getBuyQuote_concrete_scenario:
  "let q = getBuyQuote (Fin 1) (Fin 0) ''linear'' (Fin 1000000000) (Fin 85);
       netS = 0.9975;
       priceStart = 85 / (0.8 * 1000000000);
       priceEnd = priceStart * (1 + 0.5 * (netS / 85));
       closedForm = netS / ((priceStart + priceEnd) / 2)
   in QuoteResult.fee q = Fin 0.0025 \<and> priceStart = 1.0625 / 10 ^ 7 \<and>
      (\<exists>a. amountOut q = Fin a \<and> \<bar>a - closedForm\<bar> \<le> 0.001 * closedForm)"
  by (simp add: getBuyQuote_def calculateBuyPrice_def Let_def PLATFORM_FEE_RATE_def)

text \<open>
  C6. For \<open>totalSupply > 0\<close> and \<open>fundraisingTarget > 0\<close>, with
  \<open>p = currentRaised / fundraisingTarget\<close> and
  \<open>initialPrice = fundraisingTarget / (0.8 * totalSupply)\<close>, \<open>getCurrentPrice\<close> returns
  \<open>initialPrice * (1 + 0.5 * p)\<close> on the linear curve, \<open>initialPrice * (1 + 2)^p\<close> on the
  exponential curve and \<open>initialPrice * (1 + 10 * ln (1 + p))\<close> on the logarithmic curve
  (where the logarithm is defined, \<open>1 + p > 0\<close>).
\<close>

theorem getCurrentPrice_formulas:
  assumes "0 < T" and "0 < R"
  shows "let p = cr / R; initialPrice = R / (0.8 * T)
         in getCurrentPrice (Fin cr) ''linear'' (Fin T) (Fin R) =
              Fin (initialPrice * (1 + 0.5 * p)) \<and>
            getCurrentPrice (Fin cr) ''exponential'' (Fin T) (Fin R) =
              Fin (initialPrice * (1 + 2) powr p) \<and>
            (0 < 1 + p \<longrightarrow>
               getCurrentPrice (Fin cr) ''logarithmic'' (Fin T) (Fin R) =
                 Fin (initialPrice * (1 + 10 * ln (1 + p))))"
proof -
  have lin: "getCurrentPrice (Fin cr) ''linear'' (Fin T) (Fin R) =
      Fin (R / (0.8 * T) * (1 + 0.5 * (cr / R)))"
    using assms by (simp add: getCurrentPrice_def Let_def field_simps)
  have ex: "getCurrentPrice (Fin cr) ''exponential'' (Fin T) (Fin R) =
      Fin (R / (0.8 * T) * (1 + 2) powr (cr / R))"
    using assms by (simp add: getCurrentPrice_def Let_def)
  have lg: "getCurrentPrice (Fin cr) ''logarithmic'' (Fin T) (Fin R) =
      Fin (R / (0.8 * T) * (1 + 10 * ln (1 + cr / R)))" if "0 < 1 + cr / R"
    using assms that by (simp add: getCurrentPrice_def Let_def)
  show ?thesis using lin ex lg by (simp add: Let_def)
qed

theorem getCurrentPrice_formulas_witness:
  "(0::real) < 1000000000 \<and> (0::real) < 85 \<and>
   getCurrentPrice (Fin 85) ''linear'' (Fin 1000000000) (Fin 85) = Fin (1.59375 / 10 ^ 7) \<and>
   getCurrentPrice (Fin 85) ''exponential'' (Fin 1000000000) (Fin 85) = Fin (3.1875 / 10 ^ 7) \<and>
   getCurrentPrice (Fin 0) ''logarithmic'' (Fin 1000000000) (Fin 85) = Fin (1.0625 / 10 ^ 7)"
proof -
  have a: "(0::real) < 1000000000" and b: "(0::real) < 85" by simp_all
  show ?thesis
    using getCurrentPrice_formulas [OF a b, of 85] getCurrentPrice_formulas [OF a b, of 0]
    by (simp add: Let_def)
qed

text \<open>
  C7. For each of the three curve types and fixed \<open>totalSupply > 0\<close> and
  \<open>fundraisingTarget > 0\<close>, the price is monotone in progress: the price at \<open>r2\<close> is at
  least the price at \<open>r1\<close> whenever \<open>r1 < r2\<close>, for progress values \<open>r1 / R\<close> and \<open>r2 / R\<close>
  in \<open>[0, 2]\<close>.
\<close>

theorem getCurrentPrice_monotone:
  assumes "0 < T" and "0 < R" and "0 \<le> r1" and "r1 < r2" and "r2 \<le> 2 * R"
    and "c = ''linear'' \<or> c = ''exponential'' \<or> c = ''logarithmic''"
  shows "getCurrentPrice (Fin r2) c (Fin T) (Fin R) \<ge> getCurrentPrice (Fin r1) c (Fin T) (Fin R)"
proof -
  have ip: "0 < R / (T * 0.8)"
    using assms by simp
  have p: "r1 / R < r2 / R" "0 \<le> r1 / R"
    using assms by (simp_all add: divide_strict_right_mono)
  consider "c = ''linear''" | "c = ''exponential''" | "c = ''logarithmic''"
    using assms(6) by auto
  then show ?thesis
  proof cases
    case 1
    then show ?thesis
      using assms p ip by (simp add: getCurrentPrice_def Let_def field_simps)
  next
    case 2
    have "(3::real) powr (r1 / R) \<le> 3 powr (r2 / R)"
      using p by simp
    then show ?thesis
      using 2 assms ip by (simp add: getCurrentPrice_def Let_def field_simps)
  next
    case 3
    have "ln (1 + r1 / R) \<le> ln (1 + r2 / R)"
      using p by simp
    moreover have "0 < 1 + r1 / R" "0 < 1 + r2 / R"
      using p by simp_all
    ultimately show ?thesis
      using 3 assms ip by (simp add: getCurrentPrice_def Let_def field_simps)
  qed
qed

theorem getCurrentPrice_monotone_witness:
  "(0::real) < 1000000000 \<and> (0::real) < 85 \<and> (0::real) \<le> 0 \<and> (0::real) < 85 \<and>
   (85::real) \<le> 2 * 85 \<and>
   getCurrentPrice (Fin 85) ''linear'' (Fin 1000000000) (Fin 85)
     \<ge> getCurrentPrice (Fin 0) ''linear'' (Fin 1000000000) (Fin 85)"
  using getCurrentPrice_monotone [of 1000000000 85 0 85 "''linear''"]
  by simp

section \<open>Bounds of the sell quote\<close>

text \<open>
  The clamps of \<open>calculateSellPrice\<close> bound every sell quote that is a number: the quote
  is then between zero and \<open>currentRaised\<close>. On the linear and exponential curves (and
  in the default branch) the quote is always a number; on the logarithmic curve it is one
  when the token amount is below \<open>0.8 * totalSupply * (1 + progress)\<close>.
\<close>

lemma clamp_net:
  assumes "0 \<le> cr"
    and "s = Math_max (Math_min x (Fin cr) - Math_min x (Fin cr) * PLATFORM_FEE_RATE) (Fin 0)"
    and "s \<noteq> NaN"
  shows "Fin 0 \<le> s \<and> s \<le> Fin cr"
  using assms by (cases x) (auto simp: PLATFORM_FEE_RATE_def min_def max_def split: if_splits)

lemma getSellQuote_bounded_unless_NaN:
  assumes "0 \<le> cr"
    and "amountOut (getSellQuote q (Fin cr) c T R) \<noteq> NaN"
  shows "Fin 0 \<le> amountOut (getSellQuote q (Fin cr) c T R) \<and>
         amountOut (getSellQuote q (Fin cr) c T R) \<le> Fin cr"
proof -
  obtain x where "amountOut (getSellQuote q (Fin cr) c T R) =
      Math_max (Math_min x (Fin cr) - Math_min x (Fin cr) * PLATFORM_FEE_RATE) (Fin 0)"
    by (simp add: getSellQuote_def calculateSellPrice_def Let_def split_def
        del: minus_number_def times_number_def)
  then show ?thesis
    using clamp_net[OF assms(1)] assms(2) by metis
qed

lemma getSellQuote_finite_other_curves:
  assumes "0 < T" and "0 < R" and "c \<noteq> ''logarithmic''"
  shows "\<exists>a. amountOut (getSellQuote (Fin q) (Fin cr) c (Fin T) (Fin R)) = Fin a"
  using assms
  by (simp add: getSellQuote_def calculateSellPrice_def Let_def split_def PLATFORM_FEE_RATE_def)

lemma getSellQuote_finite_logarithmic:
  assumes "0 < T" and "0 < R" and "0 \<le> cr" and "q < 0.8 * T * (1 + cr / R)"
  shows "\<exists>a. amountOut (getSellQuote (Fin q) (Fin cr) ''logarithmic'' (Fin T) (Fin R)) = Fin a"
proof -
  have "0 < 1 + cr / R"
    using assms by (simp add: add_pos_nonneg)
  moreover have "0 < 1 + (T * 0.8 * (cr / R) - q) / (T * 0.8)"
    using assms by (simp add: field_simps)
  ultimately show ?thesis
    using assms
    by (simp add: getSellQuote_def calculateSellPrice_def Let_def split_def PLATFORM_FEE_RATE_def)
qed

text \<open>
  C8 (the code departs from the claim). On the logarithmic curve with
  \<open>totalSupply = 1000000000\<close>, \<open>targetRaised = 85\<close> and \<open>currentRaised = 10\<close>, the sell
  quote for 900000000 tokens takes \<open>Math.log\<close> of a negative number; the NaN passes
  through \<open>Math.min\<close> and \<open>Math.max\<close>, and \<open>amountOut\<close> is NaN, which is neither at least
  zero nor at most \<open>currentRaised\<close>.
\<close>

theorem getSellQuote_NaN_on_logarithmic_curve:
  "amountOut (getSellQuote (Fin 900000000) (Fin 10) ''logarithmic'' (Fin 1000000000) (Fin 85)) = NaN \<and>
   \<not> (Fin 0 \<le> amountOut (getSellQuote (Fin 900000000) (Fin 10) ''logarithmic''
                           (Fin 1000000000) (Fin 85))) \<and>
   \<not> (amountOut (getSellQuote (Fin 900000000) (Fin 10) ''logarithmic''
                  (Fin 1000000000) (Fin 85)) \<le> Fin 10)"
proof -
  have "amountOut (getSellQuote (Fin 900000000) (Fin 10) ''logarithmic'' (Fin 1000000000) (Fin 85)) = NaN"
   by (simp add: getSellQuote_def calculateSellPrice_def Let_def PLATFORM_FEE_RATE_def Math_abs_def)
  then show ?thesis by simp
qed

section \<open>Properties of the rounding\<close>

text \<open>
  Rounding to the nearest integer and the exponent of the binade, when they are known.
\<close>

lemma roundHalfEven_near:
  assumes "\<bar>q - of_int n\<bar> < 1 / 2"
  shows "roundHalfEven q = n"
proof -
  consider "of_int n \<le> q" | "q < of_int n" by linarith
  then show ?thesis
  proof cases
    case 1
    then have "\<lfloor>q\<rfloor> = n" using assms by (intro floor_unique) linarith+
    then show ?thesis using assms 1 by (simp add: roundHalfEven_def Let_def)
  next
    case 2
    then have f: "\<lfloor>q\<rfloor> = n - 1" using assms by (intro floor_unique) (simp, linarith+)
    then show ?thesis using assms 2 by (simp add: roundHalfEven_def Let_def)
  qed
qed

lemma binadeExp_eq:
  assumes "2 powr of_int k \<le> \<bar>x\<bar>" and "\<bar>x\<bar> < 2 powr (of_int k + 1)" and "- 1022 \<le> k"
  shows "binadeExp x = k"
proof -
  have "0 < \<bar>x\<bar>" using assms(1) by (smt (verit) powr_gt_zero)
  then have "\<lfloor>log 2 \<bar>x\<bar>\<rfloor> = k"
    using assms by (simp add: floor_log_eq_powr_iff)
  then show ?thesis using assms(3) by (simp add: binadeExp_def)
qed

text \<open>
  A certificate for one rounding: \<open>x\<close> lies in the binade of exponent \<open>k\<close> and is
  nearer than half a unit of the binade to the multiple \<open>n\<close> of the unit.
\<close>

lemma roundDouble_cert:
  assumes "2 powr of_int k \<le> \<bar>x\<bar>" and "\<bar>x\<bar> < 2 powr (of_int k + 1)"
    and "- 1022 \<le> k" and "k \<le> 1022"
    and "\<bar>x - of_int n * 2 powr (of_int k - 52)\<bar> < 2 powr (of_int k - 53)"
  shows "roundDouble x = Fin (of_int n * 2 powr (of_int k - 52))"
proof -
  let ?u = "2 powr (of_int k - 52) :: real"
  have u: "0 < ?u" by simp
  have half: "2 powr (of_int k - 53) = ?u / 2"
    by (simp add: powr_diff)
  have x0: "x \<noteq> 0" using assms(1) by (smt (verit) powr_gt_zero)
  have b: "binadeExp x = k" using binadeExp_eq[OF assms(1-3)] .
  have "\<bar>x / ?u - of_int n\<bar> = \<bar>x - of_int n * ?u\<bar> / ?u"
    using u by (simp add: field_simps abs_mult abs_divide)
  also have "\<dots> < (?u / 2) / ?u"
    using assms(5) u half by (simp add: divide_strict_right_mono)
  also have "\<dots> = 1 / 2" using u by simp
  finally have r: "roundHalfEven (x / ?u) = n" by (rule roundHalfEven_near)
  have "\<bar>of_int n * ?u\<bar> \<le> \<bar>x\<bar> + \<bar>x - of_int n * ?u\<bar>" by linarith
  also have "\<dots> < 2 powr (of_int k + 1) + 2 powr (of_int k - 53)"
    using assms(2,5) by linarith
  also have "\<dots> \<le> 2 powr (of_int k + 1) + 2 powr (of_int k + 1)"
    by (simp add: powr_mono)
  also have "\<dots> = 2 powr (of_int k + 2)"
    by (simp add: powr_add)
  also have "\<dots> \<le> 2 powr 1024"
    using assms(4) by (intro powr_mono) simp_all
  finally have "\<bar>of_int n * ?u\<bar> < 2 ^ 1024" by simp
  then show ?thesis using x0 b r by (simp add: roundDouble_def Let_def)
qed

text \<open>The integers of magnitude below \<open>2 ^ 53\<close> are doubles.\<close>

lemma roundDouble_of_int:
  assumes "\<bar>m\<bar> < 2 ^ 53"
  shows "roundDouble (of_int m) = Fin (of_int m)"
proof (cases "m = 0")
  case True
  then show ?thesis by (simp add: roundDouble_def)
next
  case False
  define x :: real where "x = of_int m"
  define k where "k = \<lfloor>log 2 \<bar>x\<bar>\<rfloor>"
  have xpos: "1 \<le> \<bar>x\<bar>" using False by (simp add: x_def flip: of_int_abs)
  have xlt: "\<bar>x\<bar> < 2 ^ 53"
  proof -
    have "real_of_int \<bar>m\<bar> < real_of_int (2 ^ 53)" using assms by (simp only: of_int_less_iff)
    then show ?thesis by (simp add: x_def)
  qed
  have kb: "2 powr of_int k \<le> \<bar>x\<bar>" "\<bar>x\<bar> < 2 powr (of_int k + 1)"
    using xpos floor_log_eq_powr_iff[of "\<bar>x\<bar>" 2 k] by (simp_all add: k_def)
  have k0: "0 \<le> k"
  proof -
    have "0 \<le> log 2 \<bar>x\<bar>" using xpos by simp
    then show ?thesis by (simp add: k_def)
  qed
  have k52: "k \<le> 52"
  proof (rule ccontr)
    assume "\<not> k \<le> 52"
    then have "53 \<le> k" by simp
    then have "(2::real) powr 53 \<le> 2 powr of_int k" by (intro powr_mono) simp_all
    then show False using kb(1) xlt by simp
  qed
  define j where "j = nat (52 - k)"
  have j: "of_int k - 52 = - real j" using k52 by (simp add: j_def)
  have u: "(2::real) powr (of_int k - 52) = 1 / 2 ^ j"
    by (simp add: j powr_minus powr_realpow divide_simps)
  have "x = of_int (m * 2 ^ j) * 2 powr (of_int k - 52)"
    by (simp add: u x_def)
  then have "\<bar>x - of_int (m * 2 ^ j) * 2 powr (of_int k - 52)\<bar> < 2 powr (of_int k - 53)"
    by simp
  then have "roundDouble x = Fin (of_int (m * 2 ^ j) * 2 powr (of_int k - 52))"
    using roundDouble_cert[OF kb, of "m * 2 ^ j"] k0 k52 by simp
  then show ?thesis by (simp add: u x_def)
qed

lemma roundDouble_numeral [simp]:
  "(numeral w :: int) < 2 ^ 53 \<Longrightarrow> roundDouble (numeral w) = Fin (numeral w)"
  "(numeral w :: int) < 2 ^ 53 \<Longrightarrow> roundDouble (- numeral w) = Fin (- numeral w)"
  "roundDouble 0 = Fin 0" "roundDouble 1 = Fin 1" "roundDouble (- 1) = Fin (- 1)"
  using roundDouble_of_int[of "numeral w"] roundDouble_of_int[of "- numeral w"]
    roundDouble_of_int[of 0] roundDouble_of_int[of 1] roundDouble_of_int[of "- 1"]
  by simp_all

text \<open>Rounding keeps NaN apart from the other numbers.\<close>

lemma fl_finite_or_infinite: "fl x \<noteq> NaN \<longleftrightarrow> x \<noteq> NaN"
  by (cases x) (simp_all add: roundDouble_def Let_def)

text \<open>The roundings that the examples below need, each with its certificate.\<close>

lemma double_0_05: "roundDouble (1 / 20) = Fin (3602879701896397 / 72057594037927936)"
  using roundDouble_cert[of "- 5" "1 / 20" "7205759403792794"]
  by (simp add: powr_neg_numeral)

lemma double_0_001: "roundDouble (1 / 1000) = Fin (1152921504606847 / 1152921504606846976)"
  using roundDouble_cert[of "- 10" "1 / 1000" "4611686018427388"]
  by (simp add: powr_neg_numeral)

lemma round_1_times_0_05: "roundDouble (3602879701896397 / 72057594037927936) = Fin (3602879701896397 / 72057594037927936)"
  using roundDouble_cert[of "- 5" "3602879701896397 / 72057594037927936" "7205759403792794"]
  by (simp add: powr_neg_numeral)

lemma round_tolerance_1: "roundDouble (58798996734949199 / 1152921504606846976) = Fin (3674937295934325 / 72057594037927936)"
  using roundDouble_cert[of "- 5" "58798996734949199 / 1152921504606846976" "7349874591868650"]
  by (simp add: powr_neg_numeral)

lemma round_10_times_0_05: "roundDouble (18014398509481985 / 36028797018963968) = Fin (1 / 2)"
  using roundDouble_cert[of "- 1" "18014398509481985 / 36028797018963968" "4503599627370496"]
  by (simp add: powr_neg_numeral)

lemma round_tolerance_10: "roundDouble (577613673808030335 / 1152921504606846976) = Fin (4512606826625237 / 9007199254740992)"
  using roundDouble_cert[of "- 1" "577613673808030335 / 1152921504606846976" "4512606826625237"]
  by (simp add: powr_neg_numeral)

lemma double_pow_minus_60: "roundDouble (1 / 1152921504606846976) = Fin (1 / 1152921504606846976)"
  using roundDouble_cert[of "- 60" "1 / 1152921504606846976" "4503599627370496"]
  by (simp add: powr_neg_numeral)

lemma round_minus_pow_minus_60: "roundDouble (- (1 / 1152921504606846976)) = Fin (- (1 / 1152921504606846976))"
  using roundDouble_cert[of "- 60" "- (1 / 1152921504606846976)" "- 4503599627370496"]
  by (simp add: powr_neg_numeral)

lemma round_pow_minus_60_times_0_05: "roundDouble (3602879701896397 / 83076749736557242056487941267521536) = Fin (3602879701896397 / 83076749736557242056487941267521536)"
  using roundDouble_cert[of "- 65" "3602879701896397 / 83076749736557242056487941267521536" "7205759403792794"]
  by (simp add: powr_neg_numeral)

lemma round_tolerance_pow_minus_60: "roundDouble (83076749736557247388749900074189 / 83076749736557242056487941267521536) = Fin (1152921504606847 / 1152921504606846976)"
  using roundDouble_cert[of "- 10" "83076749736557247388749900074189 / 83076749736557242056487941267521536" "4611686018427388"]
  by (simp add: powr_neg_numeral)

lemma round_pow_minus_60_times_150: "roundDouble (75 / 576460752303423488) = Fin (75 / 576460752303423488)"
  using roundDouble_cert[of "- 53" "75 / 576460752303423488" "5277655813324800"]
  by (simp add: powr_neg_numeral)

lemma round_150_plus: "roundDouble (86469112845513523275 / 576460752303423488) = Fin (150)"
  using roundDouble_cert[of "7" "86469112845513523275 / 576460752303423488" "5277655813324800"]
  by (simp add: powr_neg_numeral)

lemma double_lamport: "roundDouble (1 / 1000000000) = Fin (4835703278458517 / 4835703278458516698824704)"
  using roundDouble_cert[of "- 30" "1 / 1000000000" "4835703278458517"]
  by (simp add: powr_neg_numeral)

lemma double_0_0001: "roundDouble (1 / 10000) = Fin (7378697629483821 / 73786976294838206464)"
  using roundDouble_cert[of "- 14" "1 / 10000" "7378697629483821"]
  by (simp add: powr_neg_numeral)

lemma round_lamport_diff: "roundDouble (- (483575163549130151573 / 4835703278458516698824704)) = Fin (- (1844692854115029 / 18446744073709551616))"
  using roundDouble_cert[of "- 14" "- (483575163549130151573 / 4835703278458516698824704)" "- 7378771416460116"]
  by (simp add: powr_neg_numeral)

lemma round_0_0001_times_0_05: "roundDouble (26584559915698320207793929692937 / 5316911983139663491615228241121378304) = Fin (5902958103587057 / 1180591620717411303424)"
  using roundDouble_cert[of "- 18" "26584559915698320207793929692937 / 5316911983139663491615228241121378304" "5902958103587057"]
  by (simp add: powr_neg_numeral)

lemma round_tolerance_0_0001: "roundDouble (1186494578820998385 / 1180591620717411303424) = Fin (4634744448519525 / 4611686018427387904)"
  using roundDouble_cert[of "- 10" "1186494578820998385 / 1180591620717411303424" "4634744448519525"]
  by (simp add: powr_neg_numeral)

lemma round_10_minus_lamport: "roundDouble (48357032779749463709788523 / 4835703278458516698824704) = Fin (2814749766825085 / 281474976710656)"
  using roundDouble_cert[of "3" "48357032779749463709788523 / 4835703278458516698824704" "5629499533650170"]
  by (simp add: powr_neg_numeral)

lemma round_lamport_times_150: "roundDouble (- (362677745884388775 / 2417851639229258349412352)) = Fin (- (5666839779443575 / 37778931862957161709568))"
  using roundDouble_cert[of "- 23" "- (362677745884388775 / 2417851639229258349412352)" "- 5666839779443575"]
  by (simp add: powr_neg_numeral)

lemma round_least_volume: "roundDouble (- (81129638414606687362628784587639 / 37778931862957161709568)) = Fin (- 2147483648)"
  using roundDouble_cert[of "31" "- (81129638414606687362628784587639 / 37778931862957161709568)" "- 4503599627370496"]
  by (simp add: powr_neg_numeral)

lemma double_0_999995: "roundDouble (199999 / 200000) = Fin (4503577109372359 / 4503599627370496)"
  using roundDouble_cert[of "- 1" "199999 / 200000" "9007154218744718"]
  by (simp add: powr_neg_numeral)

lemma round_0_999995_diff: "roundDouble (- (22517998137 / 4503599627370496)) = Fin (- (22517998137 / 4503599627370496))"
  using roundDouble_cert[of "- 18" "- (22517998137 / 4503599627370496)" "- 5902958103625728"]
  by (simp add: powr_neg_numeral)

lemma round_0_999995_times_150: "roundDouble (337768283202926925 / 2251799813685248) = Fin (5277629425045733 / 35184372088832)"
  using roundDouble_cert[of "7" "337768283202926925 / 2251799813685248" "5277629425045733"]
  by (simp add: powr_neg_numeral)

lemma round_1500_plus: "roundDouble (58054187558293733 / 35184372088832) = Fin (7256773444786717 / 4398046511104)"
  using roundDouble_cert[of "10" "58054187558293733 / 35184372088832" "7256773444786717"]
  by (simp add: powr_neg_numeral)

lemma double_minus_0_949: "roundDouble (- (949 / 1000)) = Fin (- (8547832092749201 / 9007199254740992))"
  using roundDouble_cert[of "- 1" "- (949 / 1000)" "- 8547832092749201"]
  by (simp add: powr_neg_numeral)

lemma round_0_949_diff: "roundDouble (- (459367161991791 / 9007199254740992)) = Fin (- (459367161991791 / 9007199254740992))"
  using roundDouble_cert[of "- 5" "- (459367161991791 / 9007199254740992)" "- 7349874591868656"]
  by (simp add: powr_neg_numeral)

lemma round_1500_minus: "roundDouble (56668397788768902784908425 / 37778931862957161709568) = Fin (6597069765996293 / 4398046511104)"
  using roundDouble_cert[of "10" "56668397788768902784908425 / 37778931862957161709568" "6597069765996293"]
  by (simp add: powr_neg_numeral)

lemmas rounding_certificates =
  double_0_05 double_0_001 round_1_times_0_05 round_tolerance_1 round_10_times_0_05
  round_tolerance_10 double_pow_minus_60 round_minus_pow_minus_60
  round_pow_minus_60_times_0_05 round_tolerance_pow_minus_60 round_pow_minus_60_times_150
  round_150_plus double_lamport double_0_0001 round_lamport_diff round_0_0001_times_0_05
  round_tolerance_0_0001 round_10_minus_lamport round_lamport_times_150 round_least_volume
  double_0_999995 round_0_999995_diff round_0_999995_times_150 round_1500_plus
  double_minus_0_949 round_0_949_diff round_1500_minus

section \<open>Properties of the trade verification\<close>

text \<open>
  A signer of the transaction has an index among the account keys, and the checks that
  come before the direction check.
\<close>

lemma findIndex_Some_iff: "(\<exists>i. findIndex P xs = Some i) \<longleftrightarrow> list_ex P xs"
  by (induction xs) auto

lemma signer_has_index:
  assumes "walletIsSigner keys w"
  shows "\<exists>i. findIndex (\<lambda>k. pubkey k = w) keys = Some i"
proof -
  from assms have "list_ex (\<lambda>k. pubkey k = w) keys"
    by (auto simp: walletIsSigner_def list_ex_iff)
  then show ?thesis
    by (simp add: findIndex_Some_iff)
qed

lemma verify_after_mint_check:
  assumes "getParsedTransaction env (signature p) = RpcTx tx"
    and "\<not> (case meta tx of None \<Rightarrow> False | Some m \<Rightarrow> err m)"
    and "walletIsSigner (accountKeys tx) (expectedWallet p)"
    and "getAssociatedTokenAddressSync env (expectedMint p) (expectedWallet p) = Some ata"
    and "scanInstructions (Some ata) (expectedMint p) (allInstructions tx) False = Inr (True, True)"
  shows "verifyTradeTransaction env p =
           (case checkTokenDirection tx ata (isBuy p) of
              Some e \<Rightarrow> Inl e
            | None \<Rightarrow> checkSolAmount tx p)"
  using assms by (simp add: verifyTradeTransaction_def)

text \<open>Evaluation of the checks on the example transactions.\<close>

lemmas example_defs =
  envWith_def exampleKeys_def tokenTransferToWallet_def tokenTransferFromWallet_def
  tokenTransferElsewhere_def receiveTokensTx_def sellTokensTx_def unrelatedTransferTx_def
  buyParams_def sellParams_def

lemmas verify_defs =
  verifyTradeTransaction_def walletIsSigner_def allInstructions_def tokenInstructionTypes_def
  checkTokenDirection_def tokenChangeAt_def uiAmountOf_def checkSolAmount_def
  actualSolAmountAt_def balanceAt_def LAMPORTS_PER_SOL_def Math_abs_def

text \<open>
  C3. When the transaction is found, did not fail, has the wallet as a signer, passes the
  token transfer and mint checks and the direction check, \<open>verifyTradeTransaction\<close> fails
  with the amount mismatch error exactly when the absolute difference between the SOL
  amount observed on chain and \<open>expectedSolAmount\<close> exceeds
  \<open>expectedSolAmount * 0.05 + 0.001\<close>, and succeeds with the observed amount otherwise.
  The observed amount is the change of the wallet's lamport balance between
  \<open>preBalances\<close> and \<open>postBalances\<close>, in SOL, negated for a buy. The difference and the
  tolerance are computed as the program computes them, in doubles. The witness has the
  instance of the claim (an observed 1 against an expected 10 is a mismatch), a sell in
  which the wallet loses one SOL (the observed amount is \<open>-1\<close>), an accepted sell, and a
  buy with an observed 0.949 against an expected 1, which the doubles put outside the
  tolerance.
\<close>

theorem amount_mismatch_iff_outside_tolerance:
  assumes "getParsedTransaction env (signature p) = RpcTx tx"
    and "\<not> (case meta tx of None \<Rightarrow> False | Some m \<Rightarrow> err m)"
    and "walletIsSigner (accountKeys tx) (expectedWallet p)"
    and "getAssociatedTokenAddressSync env (expectedMint p) (expectedWallet p) = Some ata"
    and "scanInstructions (Some ata) (expectedMint p) (allInstructions tx) False = Inr (True, True)"
    and "checkTokenDirection tx ata (isBuy p) = None"
  shows "\<exists>i. findIndex (\<lambda>k. pubkey k = expectedWallet p) (accountKeys tx) = Some i \<and>
           (let pre = (case meta tx of None \<Rightarrow> [] | Some m \<Rightarrow> preBalances m);
                post = (case meta tx of None \<Rightarrow> [] | Some m \<Rightarrow> postBalances m);
                preBal = (if i < length pre then fl (Fin (real (pre ! i))) else Fin 0);
                postBal = (if i < length post then fl (Fin (real (post ! i))) else Fin 0);
                change = fl (fl (postBal - preBal) / Fin 1000000000);
                observed = (if isBuy p then - change else change);
                expected = expectedSolAmount p;
                difference = \<bar>fl (observed - expected)\<bar>;
                tolerance = fl (fl (expected * fl (Fin 0.05)) + fl (Fin 0.001))
            in if difference > tolerance
               then verifyTradeTransaction env p = Inl (SolAmountMismatch expected observed)
               else verifyTradeTransaction env p =
                      Inr \<lparr> solAmount = observed, walletAddress = expectedWallet p,
                            mintAddress = expectedMint p \<rparr>)"
proof -
  obtain i where i: "findIndex (\<lambda>k. pubkey k = expectedWallet p) (accountKeys tx) = Some i"
    using signer_has_index[OF assms(3)] by blast
  have "verifyTradeTransaction env p = checkSolAmount tx p"
    using verify_after_mint_check[OF assms(1-5)] assms(6) by simp
  then show ?thesis
    using i
    by (simp add: checkSolAmount_def actualSolAmountAt_def balanceAt_def LAMPORTS_PER_SOL_def
        Math_abs_def Let_def)
qed

lemma example_checks:
  "getParsedTransaction (envWith tx) ''sig-1'' = RpcTx tx"
  "getAssociatedTokenAddressSync (envWith tx) ''MintM'' ''Wallet'' = Some ''AtaOfWallet''"
  "isValidSolanaAddress (envWith tx) a"
  "\<not> (case meta (receiveTokensTx pre post) of None \<Rightarrow> False | Some m \<Rightarrow> err m)"
  "\<not> (case meta (sellTokensTx pre post) of None \<Rightarrow> False | Some m \<Rightarrow> err m)"
  "walletIsSigner (accountKeys (receiveTokensTx pre post)) ''Wallet''"
  "walletIsSigner (accountKeys (sellTokensTx pre post)) ''Wallet''"
  "scanInstructions (Some ''AtaOfWallet'') ''MintM'' (allInstructions (receiveTokensTx pre post))
     False = Inr (True, True)"
  "scanInstructions (Some ''AtaOfWallet'') ''MintM'' (allInstructions (sellTokensTx pre post))
     False = Inr (True, True)"
  "findIndex (\<lambda>k. pubkey k = ''Wallet'') (accountKeys (receiveTokensTx pre post)) = Some 1"
  "findIndex (\<lambda>k. pubkey k = ''Wallet'') (accountKeys (sellTokensTx pre post)) = Some 1"
  "findIndex (\<lambda>k. pubkey k = ''AtaOfWallet'') (accountKeys (receiveTokensTx pre post)) = Some 2"
  "findIndex (\<lambda>k. pubkey k = ''AtaOfWallet'') (accountKeys (sellTokensTx pre post)) = Some 2"
  "tokenChangeAt (receiveTokensTx pre post) 2 = Fin 1000"
  "tokenChangeAt (sellTokensTx pre post) 2 = Fin (- 1000)"
  by (simp_all add: example_defs walletIsSigner_def allInstructions_def
      tokenInstructionTypes_def tokenChangeAt_def uiAmountOf_def)

lemma example_directions:
  "checkTokenDirection (receiveTokensTx pre post) ''AtaOfWallet'' True = None"
  "checkTokenDirection (sellTokensTx pre post) ''AtaOfWallet'' False = None"
  "checkTokenDirection (receiveTokensTx pre post) ''AtaOfWallet'' False = Some ExpectedTokenDecrease"
  "checkTokenDirection (sellTokensTx pre post) ''AtaOfWallet'' True = Some ExpectedTokenIncrease"
  by (simp_all add: checkTokenDirection_def example_checks)

theorem amount_mismatch_witness:
  "getParsedTransaction (envWith (receiveTokensTx 5000000000 4000000000))
      (signature (buyParams (Fin 10))) = RpcTx (receiveTokensTx 5000000000 4000000000) \<and>
   walletIsSigner (accountKeys (receiveTokensTx 5000000000 4000000000))
      (expectedWallet (buyParams (Fin 10))) \<and>
   scanInstructions (Some ''AtaOfWallet'') (expectedMint (buyParams (Fin 10)))
      (allInstructions (receiveTokensTx 5000000000 4000000000)) False = Inr (True, True) \<and>
   checkTokenDirection (receiveTokensTx 5000000000 4000000000) ''AtaOfWallet''
      (isBuy (buyParams (Fin 10))) = None \<and>
   verifyTradeTransaction (envWith (receiveTokensTx 5000000000 4000000000)) (buyParams (Fin 10)) =
     Inl (SolAmountMismatch (Fin 10) (Fin 1)) \<and>
   verifyTradeTransaction (envWith (sellTokensTx 5000000000 4000000000)) (sellParams (Fin 1)) =
     Inl (SolAmountMismatch (Fin 1) (Fin (- 1))) \<and>
   verifyTradeTransaction (envWith (sellTokensTx 2000000000 3000000000)) (sellParams (Fin 1)) =
     Inr \<lparr> solAmount = Fin 1, walletAddress = ''Wallet'', mintAddress = ''MintM'' \<rparr> \<and>
   verifyTradeTransaction (envWith (receiveTokensTx 5000000000 4051000000)) (buyParams (Fin 1)) =
     Inl (SolAmountMismatch (Fin 1) (Fin (8547832092749201 / 2 ^ 53)))"
proof -
  have a: "verifyTradeTransaction (envWith (receiveTokensTx 5000000000 4000000000))
      (buyParams (Fin 10)) = Inl (SolAmountMismatch (Fin 10) (Fin 1))"
    using amount_mismatch_iff_outside_tolerance
            [of "envWith (receiveTokensTx 5000000000 4000000000)" "buyParams (Fin 10)"
                "receiveTokensTx 5000000000 4000000000" "''AtaOfWallet''"]
    by (simp add: buyParams_def example_checks example_directions)
       (simp add: receiveTokensTx_def buyParams_def rounding_certificates Let_def)
  have b: "verifyTradeTransaction (envWith (sellTokensTx 5000000000 4000000000))
      (sellParams (Fin 1)) = Inl (SolAmountMismatch (Fin 1) (Fin (- 1)))"
    using amount_mismatch_iff_outside_tolerance
            [of "envWith (sellTokensTx 5000000000 4000000000)" "sellParams (Fin 1)"
                "sellTokensTx 5000000000 4000000000" "''AtaOfWallet''"]
    by (simp add: sellParams_def example_checks example_directions)
       (simp add: sellTokensTx_def sellParams_def rounding_certificates Let_def)
  have c: "verifyTradeTransaction (envWith (sellTokensTx 2000000000 3000000000))
      (sellParams (Fin 1)) =
        Inr \<lparr> solAmount = Fin 1, walletAddress = ''Wallet'', mintAddress = ''MintM'' \<rparr>"
    using amount_mismatch_iff_outside_tolerance
            [of "envWith (sellTokensTx 2000000000 3000000000)" "sellParams (Fin 1)"
                "sellTokensTx 2000000000 3000000000" "''AtaOfWallet''"]
    by (simp add: sellParams_def example_checks example_directions)
       (simp add: sellTokensTx_def sellParams_def rounding_certificates Let_def)
  have d: "verifyTradeTransaction (envWith (receiveTokensTx 5000000000 4051000000))
      (buyParams (Fin 1)) = Inl (SolAmountMismatch (Fin 1) (Fin (8547832092749201 / 2 ^ 53)))"
    using amount_mismatch_iff_outside_tolerance
            [of "envWith (receiveTokensTx 5000000000 4051000000)" "buyParams (Fin 1)"
                "receiveTokensTx 5000000000 4051000000" "''AtaOfWallet''"]
    by (simp add: buyParams_def example_checks example_directions)
       (simp add: receiveTokensTx_def buyParams_def rounding_certificates Let_def)
  show ?thesis
    using a b c d by (simp add: buyParams_def example_checks example_directions)
qed

text \<open>
  The direction check, when the wallet's associated token account is one of the
  transaction's account keys.
\<close>

lemma wrong_direction_when_ata_in_transaction:
  assumes "getParsedTransaction env (signature p) = RpcTx tx"
    and "\<not> (case meta tx of None \<Rightarrow> False | Some m \<Rightarrow> err m)"
    and "walletIsSigner (accountKeys tx) (expectedWallet p)"
    and "getAssociatedTokenAddressSync env (expectedMint p) (expectedWallet p) = Some ata"
    and "scanInstructions (Some ata) (expectedMint p) (allInstructions tx) False = Inr (True, True)"
    and "findIndex (\<lambda>k. pubkey k = ata) (accountKeys tx) = Some ataIndex"
  shows "(isBuy p \<and> tokenChangeAt tx ataIndex \<le> Fin 0 \<longrightarrow>
            verifyTradeTransaction env p = Inl ExpectedTokenIncrease) \<and>
         (\<not> isBuy p \<and> tokenChangeAt tx ataIndex \<ge> Fin 0 \<longrightarrow>
            verifyTradeTransaction env p = Inl ExpectedTokenDecrease)"
  using verify_after_mint_check[OF assms(1-5)] assms(6)
  by (auto simp: checkTokenDirection_def Let_def)

text \<open>
  C4 (the code departs from the claim). In \<open>unrelatedTransferTx\<close> the wallet signs and
  pays one SOL while tokens of the mint move between two other accounts. The transaction
  passes the signer and mint checks. The wallet's associated token account is not an
  account of the transaction, so its token balance does not increase; the direction
  check is skipped (\<open>ataIndex\<close> is \<open>-1\<close>) and the verification of a buy succeeds, where
  the claim, the function's own description (check 4, the token balance changes on the
  wallet's associated token account) and the sibling check of the wallet's index, which
  answers an error when the index is \<open>-1\<close>, say that it fails.
\<close>

theorem direction_check_skipped_on_unrelated_transfer:
  "getParsedTransaction (envWith unrelatedTransferTx) (signature (buyParams (Fin 1))) =
     RpcTx unrelatedTransferTx \<and>
   walletIsSigner (accountKeys unrelatedTransferTx) (expectedWallet (buyParams (Fin 1))) \<and>
   scanInstructions (Some ''AtaOfWallet'') (expectedMint (buyParams (Fin 1)))
      (allInstructions unrelatedTransferTx) False = Inr (True, True) \<and>
   isBuy (buyParams (Fin 1)) \<and>
   findIndex (\<lambda>k. pubkey k = ''AtaOfWallet'') (accountKeys unrelatedTransferTx) = None \<and>
   verifyTradeTransaction (envWith unrelatedTransferTx) (buyParams (Fin 1)) =
     Inr \<lparr> solAmount = Fin 1, walletAddress = ''Wallet'', mintAddress = ''MintM'' \<rparr>"
  by (simp add: verify_defs example_defs rounding_certificates)

section \<open>Properties of the buy confirmation\<close>

text \<open>
  The buy handler after a successful verification: it answers 500 and stores nothing when
  the database refuses the update, and otherwise stores the updated row.
\<close>

lemma notPositiveNumber_Fin [simp]: "notPositiveNumber (Fin x) \<longleftrightarrow> x \<le> 0"
  by (simp add: notPositiveNumber_def)

lemma confirmBuy_verified:
  assumes "buyTxSignature body = Some sig" and "sig \<noteq> []"
    and "isValidSolanaAddress env (buyWalletAddress body)"
    and "fl (buySolAmount body) = Fin s" and "0 < s"
    and "fl (tokensReceived body) = Fin t" and "0 < t"
    and "st launchId = Some launch" and "status launch = ''active''"
    and "verifyTradeTransaction env
           \<lparr> signature = sig, expectedWallet = buyWalletAddress body,
             expectedMint = mintAddress launch, expectedSolAmount = Fin s,
             isBuy = True \<rparr> = Inr v"
  shows "confirmBuy env st launchId body =
           (case applyUpdate (buyUpdates launch (verifiedBuyAmount (solAmount v) (Fin s))) launch of
              None \<Rightarrow> (ServerError ''Failed to confirm buy transaction'', st)
            | Some row \<Rightarrow>
                (BuyConfirmed
                   (fl (fl (currentRaised launch) + verifiedBuyAmount (solAmount v) (Fin s))
                      \<ge> fl (fundraisingTarget launch))
                   sig (verifiedBuyAmount (solAmount v) (Fin s)) (Fin t) (Some row),
                 st(launchId \<mapsto> row)))"
  using assms
  by (simp add: confirmBuy_def getLaunchById_def updateLaunch_def Let_def split: option.splits)

text \<open>A launch that is not active rejects every buy and is left as it is.\<close>

lemma confirmBuy_not_active:
  assumes "st launchId = Some launch" and "status launch \<noteq> ''active''"
  shows "snd (confirmBuy env st launchId body) = st"
  using assms
  by (simp add: confirmBuy_def getLaunchById_def Let_def split: option.splits)

lemma confirmBuys_not_active:
  assumes "st launchId = Some launch" and "status launch \<noteq> ''active''"
  shows "confirmBuys env st launchId bodies = st"
  using assms by (induction bodies) (simp_all add: confirmBuy_not_active)

text \<open>
  Two verified buys: one in which the wallet's lamport balance does not change, and one
  in which it grows by one lamport.
\<close>

lemma verify_zero_delta:
  "verifyTradeTransaction (envWith (receiveTokensTx 2000000000 2000000000))
      (buyParams (Fin (1 / 2 ^ 60))) =
     Inr \<lparr> solAmount = Fin 0, walletAddress = ''Wallet'', mintAddress = ''MintM'' \<rparr>"
  by (simp add: verify_defs example_defs rounding_certificates)

lemma verify_lamport_gain:
  "verifyTradeTransaction (envWith (receiveTokensTx 2000000000 2000000001))
      (buyParams (Fin (7378697629483821 / 2 ^ 66))) =
     Inr \<lparr> solAmount = Fin (- (4835703278458517 / 2 ^ 82)), walletAddress = ''Wallet'',
           mintAddress = ''MintM'' \<rparr>"
  by (simp add: verify_defs example_defs rounding_certificates)

lemmas update_defs =
  applyUpdate_def buyUpdates_def sellUpdates_def verifiedBuyAmount_def js_or_def
  setIntColumn_def orZero_def Let_def

text \<open>
  When the verified amount is not zero, it is the amount that the buy adds.
\<close>

lemma verifiedBuyAmount_nonzero:
  assumes "a \<noteq> 0"
  shows "verifiedBuyAmount (Fin a) claimed = Fin a"
  using assms by (simp add: verifiedBuyAmount_def js_or_def)

text \<open>The status that a buy writes.\<close>

lemma buyUpdates_status:
  "setStatus (buyUpdates launch amount) =
     Some (if fl (fl (currentRaised launch) + amount) \<ge> fl (fundraisingTarget launch)
           then ''graduated'' else ''active'')"
  by (simp add: buyUpdates_def Let_def)

text \<open>
  C1 (the code departs from the claim). The launch has nothing raised and a volume of
  150. The transaction leaves the wallet's lamport balance unchanged, so the SOL amount
  observed on chain is zero, and the request claims \<open>2 ^ -60\<close> SOL, which is within the
  tolerance. The verification succeeds with \<open>solAmount = 0\<close>; the handler evaluates
  \<open>verification.solAmount || solAmountNum\<close> and takes the claimed amount because zero is
  falsy. The new volume \<open>150 + 2 ^ -60 * 150\<close> rounds to 150, which the integer column
  accepts, so the confirmation succeeds and \<open>currentRaised\<close> becomes the claimed
  \<open>2 ^ -60\<close> instead of staying at zero.
\<close>

theorem confirmBuy_adds_claimed_amount_on_zero_delta:
  "actualSolAmountAt (receiveTokensTx 2000000000 2000000000) 1 True = Fin 0 \<and>
   verifyTradeTransaction (envWith (receiveTokensTx 2000000000 2000000000))
      (buyParams (Fin (1 / 2 ^ 60))) =
     Inr \<lparr> solAmount = Fin 0, walletAddress = ''Wallet'', mintAddress = ''MintM'' \<rparr> \<and>
   currentRaised nothingRaisedLaunch = Fin 0 \<and>
   confirmBuy (envWith (receiveTokensTx 2000000000 2000000000))
      (storageWith nothingRaisedLaunch) ''launch-1'' (buyBody (Fin (1 / 2 ^ 60))) =
     (BuyConfirmed False ''sig-1'' (Fin (1 / 2 ^ 60)) (Fin 1000)
        (Some (nothingRaisedLaunch\<lparr> currentRaised := Fin (1 / 2 ^ 60), holders := Some 1 \<rparr>)),
      storageWith (nothingRaisedLaunch\<lparr> currentRaised := Fin (1 / 2 ^ 60), holders := Some 1 \<rparr>))"
proof -
  let ?env = "envWith (receiveTokensTx 2000000000 2000000000)"
  have obs: "actualSolAmountAt (receiveTokensTx 2000000000 2000000000) 1 True = Fin 0"
    by (simp add: actualSolAmountAt_def balanceAt_def LAMPORTS_PER_SOL_def receiveTokensTx_def)
  have upd: "applyUpdate (buyUpdates nothingRaisedLaunch (verifiedBuyAmount (Fin 0) (Fin (1 / 2 ^ 60))))
      nothingRaisedLaunch =
        Some (nothingRaisedLaunch\<lparr> currentRaised := Fin (1 / 2 ^ 60), holders := Some 1 \<rparr>)"
    by (simp add: update_defs nothingRaisedLaunch_def exampleLaunch_def rounding_certificates)
  have grad: "\<not> (fl (fl (currentRaised nothingRaisedLaunch) +
                     verifiedBuyAmount (Fin 0) (Fin (1 / 2 ^ 60)))
                \<ge> fl (fundraisingTarget nothingRaisedLaunch))"
    by (simp add: update_defs nothingRaisedLaunch_def exampleLaunch_def rounding_certificates)
  have "confirmBuy ?env (storageWith nothingRaisedLaunch) ''launch-1'' (buyBody (Fin (1 / 2 ^ 60))) =
     (BuyConfirmed False ''sig-1'' (Fin (1 / 2 ^ 60)) (Fin 1000)
        (Some (nothingRaisedLaunch\<lparr> currentRaised := Fin (1 / 2 ^ 60), holders := Some 1 \<rparr>)),
      (storageWith nothingRaisedLaunch)(''launch-1'' \<mapsto>
         nothingRaisedLaunch\<lparr> currentRaised := Fin (1 / 2 ^ 60), holders := Some 1 \<rparr>))"
    using confirmBuy_verified
            [of "buyBody (Fin (1 / 2 ^ 60))" "''sig-1''" ?env "1 / 2 ^ 60" 1000
                "storageWith nothingRaisedLaunch" "''launch-1''" nothingRaisedLaunch
                "\<lparr> solAmount = Fin 0, walletAddress = ''Wallet'', mintAddress = ''MintM'' \<rparr>"]
      verify_zero_delta upd grad
    by (simp add: buyBody_def buyParams_def example_checks storageWith_def
        nothingRaisedLaunch_def exampleLaunch_def rounding_certificates
        verifiedBuyAmount_def js_or_def)
  then show ?thesis
    using obs verify_zero_delta
    by (simp add: storageWith_def nothingRaisedLaunch_def exampleLaunch_def)
qed

text \<open>
  A verified buy with a negative observed amount, for the launch with a volume of 1500:
  the new volume \<open>1500 - 1.5e-7\<close> is not a whole number, the update is refused, the
  handler answers 500 and nothing is stored.
\<close>

lemma confirmBuy_refused_volume:
  "confirmBuy (envWith (receiveTokensTx 2000000000 2000000001)) (storageWith exampleLaunch)
      ''launch-1'' (buyBody (Fin 0.0001)) =
     (ServerError ''Failed to confirm buy transaction'', storageWith exampleLaunch)"
proof -
  let ?env = "envWith (receiveTokensTx 2000000000 2000000001)"
  let ?m = "Fin (- (4835703278458517 / 2 ^ 82))"
  let ?e = "7378697629483821 / 2 ^ 66 :: real"
  have upd: "applyUpdate (buyUpdates exampleLaunch (verifiedBuyAmount ?m (Fin ?e)))
      exampleLaunch = None"
    by (simp add: update_defs exampleLaunch_def rounding_certificates)
  show ?thesis
    using confirmBuy_verified
            [of "buyBody (Fin 0.0001)" "''sig-1''" ?env ?e 1000
                "storageWith exampleLaunch" "''launch-1''" exampleLaunch
                "\<lparr> solAmount = ?m, walletAddress = ''Wallet'', mintAddress = ''MintM'' \<rparr>"]
      verify_lamport_gain upd
    by (simp add: buyBody_def buyParams_def example_checks storageWith_def
        exampleLaunch_def rounding_certificates)
qed

text \<open>
  C2 (the code departs from the claim). The launch has 10 SOL raised and the volume
  \<open>-2147483648\<close>. The wallet's lamport balance grows by one lamport in the transaction
  and the request claims 0.0001 SOL: the observed amount, minus one lamport, is within
  the tolerance, and the verification succeeds with a negative amount. The new volume
  \<open>-2147483648 - 1.5e-7\<close> rounds to \<open>-2147483648\<close>, which the integer column accepts,
  so the confirmation succeeds and lowers \<open>currentRaised\<close> from 10 to 9.999999999.
  The verification has no check that the observed amount of a buy is positive.
\<close>

theorem confirmBuys_can_decrease_currentRaised:
  "actualSolAmountAt (receiveTokensTx 2000000000 2000000001) 1 True =
     Fin (- (4835703278458517 / 2 ^ 82)) \<and>
   map_option currentRaised (storageWith leastVolumeLaunch ''launch-1'') = Some (Fin 10) \<and>
   confirmBuys (envWith (receiveTokensTx 2000000000 2000000001)) (storageWith leastVolumeLaunch)
      ''launch-1'' [buyBody (Fin 0.0001)] =
     storageWith (leastVolumeLaunch\<lparr> currentRaised := Fin (2814749766825085 / 2 ^ 48),
                                     holders := Some 4 \<rparr>) \<and>
   Fin (2814749766825085 / 2 ^ 48) < Fin 10"
proof -
  let ?env = "envWith (receiveTokensTx 2000000000 2000000001)"
  let ?m = "Fin (- (4835703278458517 / 2 ^ 82))"
  let ?e = "7378697629483821 / 2 ^ 66 :: real"
  let ?row = "leastVolumeLaunch\<lparr> currentRaised := Fin (2814749766825085 / 2 ^ 48),
                                holders := Some 4 \<rparr>"
  have obs: "actualSolAmountAt (receiveTokensTx 2000000000 2000000001) 1 True = ?m"
    by (simp add: actualSolAmountAt_def balanceAt_def LAMPORTS_PER_SOL_def receiveTokensTx_def
        rounding_certificates)
  have upd: "applyUpdate (buyUpdates leastVolumeLaunch (verifiedBuyAmount ?m (Fin ?e)))
      leastVolumeLaunch = Some ?row"
    by (simp add: update_defs leastVolumeLaunch_def exampleLaunch_def rounding_certificates)
  have "confirmBuy ?env (storageWith leastVolumeLaunch) ''launch-1'' (buyBody (Fin 0.0001)) =
     (BuyConfirmed
        (fl (fl (currentRaised leastVolumeLaunch) + verifiedBuyAmount ?m (Fin ?e))
           \<ge> fl (fundraisingTarget leastVolumeLaunch))
        ''sig-1'' (verifiedBuyAmount ?m (Fin ?e)) (Fin 1000) (Some ?row),
      (storageWith leastVolumeLaunch)(''launch-1'' \<mapsto> ?row))"
    using confirmBuy_verified
            [of "buyBody (Fin 0.0001)" "''sig-1''" ?env ?e 1000
                "storageWith leastVolumeLaunch" "''launch-1''" leastVolumeLaunch
                "\<lparr> solAmount = ?m, walletAddress = ''Wallet'', mintAddress = ''MintM'' \<rparr>"]
      verify_lamport_gain upd
    by (simp add: buyBody_def buyParams_def example_checks storageWith_def
        leastVolumeLaunch_def exampleLaunch_def rounding_certificates)
  then have "confirmBuys ?env (storageWith leastVolumeLaunch) ''launch-1'' [buyBody (Fin 0.0001)] =
      storageWith ?row"
    by (simp add: storageWith_def)
  then show ?thesis
    using obs by (simp add: storageWith_def leastVolumeLaunch_def exampleLaunch_def)
qed

section \<open>Properties of the sell confirmation\<close>

text \<open>
  The sell handler for a request that passes the validation, and what it leaves in the
  storage.
\<close>

lemma confirmSell_result:
  assumes "sellTxSignature body = Some sig" and "sig \<noteq> []"
    and "isValidSolanaAddress env (sellWalletAddress body)"
    and "fl (tokenAmount body) = Fin q" and "0 < q"
    and "fl (solReceived body) = Fin s" and "0 < s"
    and "st launchId = Some launch"
  shows "confirmSell env st launchId body =
           (case verifyTradeTransaction env
                   \<lparr> signature = sig, expectedWallet = sellWalletAddress body,
                     expectedMint = mintAddress launch, expectedSolAmount = Fin s,
                     isBuy = False \<rparr> of
              Inl e \<Rightarrow> (VerificationFailed e, st)
            | Inr v \<Rightarrow>
                (case int32Column
                        (fl (orZero (volume24h launch) +
                             fl (js_or (solAmount v) (Fin s) * Fin 150))) of
                   None \<Rightarrow> (ServerError ''Failed to confirm sell transaction'', st)
                 | Some k \<Rightarrow>
                     (SellConfirmed sig (js_or (solAmount v) (Fin s)) (Fin q)
                        (Some (launch\<lparr> volume24h := Some k \<rparr>)),
                      st(launchId \<mapsto> launch\<lparr> volume24h := Some k \<rparr>))))"
  using assms
  by (simp add: confirmSell_def getLaunchById_def updateLaunch_def applyUpdate_def
      sellUpdates_def setIntColumn_def Let_def split: sum.splits option.splits)

lemma confirmSell_storage:
  assumes "st launchId = Some launch"
  shows "snd (confirmSell env st launchId body) = st \<or>
         (\<exists>k. snd (confirmSell env st launchId body) =
                 st(launchId \<mapsto> launch\<lparr> volume24h := Some k \<rparr>))"
  using assms
  by (auto simp: confirmSell_def getLaunchById_def updateLaunch_def applyUpdate_def
      sellUpdates_def setIntColumn_def Let_def split: option.splits sum.splits)

text \<open>A verified sell in which the wallet receives one SOL.\<close>

lemma verify_sell:
  "verifyTradeTransaction (envWith (sellTokensTx 2000000000 3000000000)) (sellParams (Fin 1)) =
     Inr \<lparr> solAmount = Fin 1, walletAddress = ''Wallet'', mintAddress = ''MintM'' \<rparr>"
  by (simp add: verify_defs example_defs rounding_certificates)

text \<open>
  The handler answers 500 when the new volume is not a whole number: a sell in which the
  wallet receives 0.999995 SOL (one SOL less the fee, which the wallet pays) gives the
  volume \<open>1649.99925\<close>, which the integer column refuses, and nothing is stored.
\<close>

lemma confirmSell_refused_volume:
  "confirmSell (envWith (sellTokensTx 2000000000 2999995000)) (storageWith exampleLaunch)
      ''launch-1'' (sellBody (Fin 1)) =
     (ServerError ''Failed to confirm sell transaction'', storageWith exampleLaunch)"
proof -
  have v: "verifyTradeTransaction (envWith (sellTokensTx 2000000000 2999995000))
      (sellParams (Fin 1)) =
     Inr \<lparr> solAmount = Fin (4503577109372359 / 2 ^ 52), walletAddress = ''Wallet'',
           mintAddress = ''MintM'' \<rparr>"
    by (simp add: verify_defs example_defs rounding_certificates)
  show ?thesis
    using confirmSell_result
            [of "sellBody (Fin 1)" "''sig-1''"
                "envWith (sellTokensTx 2000000000 2999995000)" 1000 1
                "storageWith exampleLaunch" "''launch-1''" exampleLaunch] v
    by (simp add: sellBody_def sellParams_def example_checks storageWith_def exampleLaunch_def
        js_or_def orZero_def rounding_certificates)
qed

text \<open>
  C9. Confirming a sell changes at most the \<open>volume24h\<close> of the launch: the row after
  the handler equals the row before it in every other field, in particular in
  \<open>currentRaised\<close> and \<open>status\<close>, and no other launch changes.
\<close>

theorem confirmSell_changes_only_volume24h:
  assumes "st launchId = Some launch"
  shows "\<exists>row. snd (confirmSell env st launchId body) launchId = Some row \<and>
           row\<lparr> volume24h := volume24h launch \<rparr> = launch \<and>
           currentRaised row = currentRaised launch \<and>
           status row = status launch \<and>
           (\<forall>other. other \<noteq> launchId \<longrightarrow>
              snd (confirmSell env st launchId body) other = st other)"
proof -
  consider "snd (confirmSell env st launchId body) = st"
    | k where "snd (confirmSell env st launchId body) =
                 st(launchId \<mapsto> launch\<lparr> volume24h := Some k \<rparr>)"
    using confirmSell_storage[of st launchId launch env body] assms by blast
  then show ?thesis
  proof cases
    case 1
    then show ?thesis using assms by simp
  next
    case 2
    then show ?thesis by simp
  qed
qed

theorem confirmSell_changes_only_volume24h_witness:
  "storageWith exampleLaunch ''launch-1'' = Some exampleLaunch \<and>
   snd (confirmSell (envWith (sellTokensTx 2000000000 3000000000)) (storageWith exampleLaunch)
          ''launch-1'' (sellBody (Fin 1)))
     ''launch-1'' = Some (exampleLaunch\<lparr> volume24h := Some 1650 \<rparr>) \<and>
   currentRaised (exampleLaunch\<lparr> volume24h := Some 1650 \<rparr>) = Fin 10 \<and>
   status (exampleLaunch\<lparr> volume24h := Some 1650 \<rparr>) = ''active''"
proof -
  have st: "storageWith exampleLaunch ''launch-1'' = Some exampleLaunch"
    by (simp add: storageWith_def)
  have "confirmSell (envWith (sellTokensTx 2000000000 3000000000)) (storageWith exampleLaunch)
      ''launch-1'' (sellBody (Fin 1)) =
     (SellConfirmed ''sig-1'' (Fin 1) (Fin 1000) (Some (exampleLaunch\<lparr> volume24h := Some 1650 \<rparr>)),
      (storageWith exampleLaunch)(''launch-1'' \<mapsto> exampleLaunch\<lparr> volume24h := Some 1650 \<rparr>))"
    using confirmSell_result
            [of "sellBody (Fin 1)" "''sig-1''" "envWith (sellTokensTx 2000000000 3000000000)"
                1000 1 "storageWith exampleLaunch" "''launch-1''" exampleLaunch]
      verify_sell st
    by (simp add: sellBody_def sellParams_def example_checks exampleLaunch_def js_or_def
        orZero_def)
  then have "snd (confirmSell (envWith (sellTokensTx 2000000000 3000000000))
        (storageWith exampleLaunch) ''launch-1'' (sellBody (Fin 1)))
     ''launch-1'' = Some (exampleLaunch\<lparr> volume24h := Some 1650 \<rparr>)"
    by simp
  then show ?thesis
    using confirmSell_changes_only_volume24h
            [of "storageWith exampleLaunch" "''launch-1''" exampleLaunch
                "envWith (sellTokensTx 2000000000 3000000000)" "sellBody (Fin 1)"] st
    by (simp add: exampleLaunch_def)
qed



end
